theory Spec2Isabelle
  imports Complex_Main "HOL-Library.Sublist" "HOL-Library.AList" "HOL-Library.Log_Nat"
begin


section \<open>Text: lower-casing and substring tests\<close>

text \<open>
  Python strings are modelled as \<^typ>\<open>string\<close>. \<open>str.lower()\<close> is modelled on the ASCII
  letters \<open>A\<close>..\<open>Z\<close> (codes 65..90); every other character is left as it is. The case
  mapping of non-ASCII code points is outside this model.
\<close>

definition lower_char :: "char \<Rightarrow> char" where
  "lower_char c =
     (let n = (of_char c :: nat) in if 65 \<le> n \<and> n \<le> 90 then char_of (n + 32) else c)"

definition lower :: "string \<Rightarrow> string" where
  "lower s = map lower_char s"

text \<open>\<open>contains txt kw\<close> is Python's \<open>kw in txt\<close> on strings: \<open>kw\<close> occurs in \<open>txt\<close> as a
  contiguous block.\<close>

fun contains :: "string \<Rightarrow> string \<Rightarrow> bool" where
  "contains [] kw = (kw = [])"
| "contains (c # cs) kw = (prefix kw (c # cs) \<or> contains cs kw)"

text \<open>\<open>any_kw kws txt\<close> is \<open>any(keyword in txt for keyword in kws)\<close>.\<close>

definition any_kw :: "string list \<Rightarrow> string \<Rightarrow> bool" where
  "any_kw kws txt = list_ex (\<lambda>keyword. contains txt keyword) kws"

text \<open>The f-string \<open>f"{title} {description}".lower()\<close>.\<close>

definition combined_text :: "string \<Rightarrow> string \<Rightarrow> string" where
  "combined_text ttl descr = lower (ttl @ '' '' @ descr)"


section \<open>Task specifications and the decomposition templates\<close>

text \<open>The dictionaries built by the template functions of \<open>task_agent.py\<close>: every one has
  exactly the keys \<open>title\<close>, \<open>description\<close>, \<open>assignee\<close>, \<open>priority\<close> and \<open>feature\<close>.\<close>

record task_spec =
  title :: string
  description :: string
  assignee :: string
  priority :: int
  feature :: string

definition generate_auth_tasks :: "task_spec list" where
  "generate_auth_tasks =
     [\<lparr>title = ''Design authentication flow'',
       description = ''Design the user authentication workflow including login, registration, and password reset flows'',
       assignee = ''User'', priority = 9, feature = ''authentication''\<rparr>,
      \<lparr>title = ''Implement user model and database schema'',
       description = ''Create user model with fields for authentication, set up database schema with proper indexing'',
       assignee = ''AI IDE Agent'', priority = 9, feature = ''authentication''\<rparr>,
      \<lparr>title = ''Build login API endpoint'',
       description = ''Implement secure login endpoint with JWT token generation and validation'',
       assignee = ''AI IDE Agent'', priority = 8, feature = ''authentication''\<rparr>,
      \<lparr>title = ''Create registration endpoint'',
       description = ''Build user registration with email verification and password hashing'',
       assignee = ''AI IDE Agent'', priority = 8, feature = ''authentication''\<rparr>]"

definition generate_api_tasks :: "task_spec list" where
  "generate_api_tasks =
     [\<lparr>title = ''Set up API framework and routing'',
       description = ''Initialize API framework, set up routing structure, and configure middleware'',
       assignee = ''AI IDE Agent'', priority = 9, feature = ''api''\<rparr>,
      \<lparr>title = ''Implement API authentication middleware'',
       description = ''Create middleware for API authentication and authorization'',
       assignee = ''AI IDE Agent'', priority = 8, feature = ''api''\<rparr>,
      \<lparr>title = ''Create API documentation'',
       description = ''Set up API documentation with OpenAPI/Swagger specifications'',
       assignee = ''Archon'', priority = 6, feature = ''api''\<rparr>]"

definition generate_frontend_tasks :: "task_spec list" where
  "generate_frontend_tasks =
     [\<lparr>title = ''Set up frontend framework and build system'',
       description = ''Initialize React/Vue/Angular project with build configuration and dev environment'',
       assignee = ''AI IDE Agent'', priority = 9, feature = ''frontend''\<rparr>,
      \<lparr>title = ''Design UI component library'',
       description = ''Create reusable UI components and establish design system'',
       assignee = ''User'', priority = 7, feature = ''frontend''\<rparr>,
      \<lparr>title = ''Implement responsive layouts'',
       description = ''Build responsive layouts for mobile and desktop views'',
       assignee = ''AI IDE Agent'', priority = 6, feature = ''frontend''\<rparr>]"

definition generate_database_tasks :: "task_spec list" where
  "generate_database_tasks =
     [\<lparr>title = ''Design database schema'',
       description = ''Create comprehensive database schema with relationships, indexes, and constraints'',
       assignee = ''User'', priority = 9, feature = ''database''\<rparr>,
      \<lparr>title = ''Set up database migrations'',
       description = ''Implement database migration system for schema versioning'',
       assignee = ''AI IDE Agent'', priority = 8, feature = ''database''\<rparr>,
      \<lparr>title = ''Create database access layer'',
       description = ''Implement ORM setup and database access patterns'',
       assignee = ''AI IDE Agent'', priority = 7, feature = ''database''\<rparr>]"

definition generate_generic_project_tasks :: "string \<Rightarrow> task_spec list" where
  "generate_generic_project_tasks ttl =
     [\<lparr>title = ''Project initialization and setup'',
       description = ''Initialize '' @ ttl @ '' project structure, dependencies, and development environment'',
       assignee = ''AI IDE Agent'', priority = 9, feature = ''setup''\<rparr>,
      \<lparr>title = ''Define project requirements'',
       description = ''Analyze and document detailed requirements for '' @ ttl,
       assignee = ''User'', priority = 8, feature = ''planning''\<rparr>,
      \<lparr>title = ''Create project architecture design'',
       description = ''Design system architecture and component interactions'',
       assignee = ''User'', priority = 7, feature = ''architecture''\<rparr>]"

text \<open>The two dictionaries that \<open>_generate_project_tasks\<close> adds to every project.\<close>

definition common_project_tasks :: "string \<Rightarrow> task_spec list" where
  "common_project_tasks ttl =
     [\<lparr>title = ''Create project documentation'',
       description = ''Set up initial documentation for '' @ ttl @
         '' project including README, setup instructions, and architecture overview'',
       assignee = ''Archon'', priority = 7, feature = ''documentation''\<rparr>,
      \<lparr>title = ''Set up testing framework'',
       description = ''Configure testing infrastructure and write initial test cases'',
       assignee = ''AI IDE Agent'', priority = 6, feature = ''testing''\<rparr>]"

text \<open>The keyword lists tested by \<open>_generate_project_tasks\<close>, in the order of its four
  \<open>if\<close> statements.\<close>

definition auth_keywords :: "string list" where
  "auth_keywords = [''auth'', ''login'', ''user'', ''account'']"

definition api_keywords :: "string list" where
  "api_keywords = [''api'', ''backend'', ''server'', ''endpoint'']"

definition frontend_keywords :: "string list" where
  "frontend_keywords = [''ui'', ''frontend'', ''react'', ''component'', ''dashboard'']"

definition database_keywords :: "string list" where
  "database_keywords = [''database'', ''db'', ''data'', ''model'']"

text \<open>The list \<open>tasks\<close> that \<open>_generate_project_tasks\<close> builds before it submits anything:
  four independent tests that each extend the list, the generic template when the list
  is still empty, then the two common tasks.\<close>

definition project_task_specs :: "string \<Rightarrow> string \<Rightarrow> task_spec list" where
  "project_task_specs ttl descr =
     (let txt = combined_text ttl descr;
          tasks = [];
          tasks = (if any_kw auth_keywords txt then tasks @ generate_auth_tasks else tasks);
          tasks = (if any_kw api_keywords txt then tasks @ generate_api_tasks else tasks);
          tasks = (if any_kw frontend_keywords txt then tasks @ generate_frontend_tasks else tasks);
          tasks = (if any_kw database_keywords txt then tasks @ generate_database_tasks else tasks);
          tasks = (if tasks = [] then tasks @ generate_generic_project_tasks ttl else tasks)
      in tasks @ common_project_tasks ttl)"

text \<open>\<open>_analyze_and_break_down_task\<close>: an \<open>if\<close>/\<open>elif\<close>/\<open>else\<close> chain, so exactly one
  template is returned.\<close>

definition api_subtasks :: "string \<Rightarrow> task_spec list" where
  "api_subtasks task_title =
     [\<lparr>title = ''Design '' @ task_title @ '' request/response schema'',
       description = ''Define API request parameters, response format, and data validation rules'',
       assignee = ''User'', priority = 8, feature = ''api_design''\<rparr>,
      \<lparr>title = ''Implement '' @ task_title @ '' input validation'',
       description = ''Add input validation and sanitization for the endpoint'',
       assignee = ''AI IDE Agent'', priority = 9, feature = ''validation''\<rparr>,
      \<lparr>title = ''Add '' @ task_title @ '' business logic'',
       description = ''Implement the core business logic for the endpoint functionality'',
       assignee = ''AI IDE Agent'', priority = 8, feature = ''business_logic''\<rparr>,
      \<lparr>title = ''Create '' @ task_title @ '' error handling'',
       description = ''Implement comprehensive error handling and appropriate HTTP status codes'',
       assignee = ''AI IDE Agent'', priority = 7, feature = ''error_handling''\<rparr>,
      \<lparr>title = ''Write tests for '' @ task_title,
       description = ''Create unit and integration tests for the endpoint'',
       assignee = ''AI IDE Agent'', priority = 6, feature = ''testing''\<rparr>]"

definition ui_subtasks :: "string \<Rightarrow> task_spec list" where
  "ui_subtasks task_title =
     [\<lparr>title = ''Design '' @ task_title @ '' wireframes'',
       description = ''Create wireframes and visual design for the component'',
       assignee = ''User'', priority = 8, feature = ''design''\<rparr>,
      \<lparr>title = ''Implement '' @ task_title @ '' structure'',
       description = ''Build the basic component structure and layout'',
       assignee = ''AI IDE Agent'', priority = 8, feature = ''implementation''\<rparr>,
      \<lparr>title = ''Add '' @ task_title @ '' interactivity'',
       description = ''Implement user interactions and event handling'',
       assignee = ''AI IDE Agent'', priority = 7, feature = ''functionality''\<rparr>,
      \<lparr>title = ''Style '' @ task_title @ '' component'',
       description = ''Apply responsive styling and accessibility features'',
       assignee = ''AI IDE Agent'', priority = 6, feature = ''styling''\<rparr>]"

definition generic_subtasks :: "string \<Rightarrow> task_spec list" where
  "generic_subtasks task_title =
     [\<lparr>title = ''Research and plan '' @ task_title,
       description = ''Research requirements and create detailed plan for '' @ task_title,
       assignee = ''User'', priority = 8, feature = ''planning''\<rparr>,
      \<lparr>title = ''Implement core '' @ task_title @ '' functionality'',
       description = ''Build the main functionality for '' @ task_title,
       assignee = ''AI IDE Agent'', priority = 7, feature = ''implementation''\<rparr>,
      \<lparr>title = ''Test and validate '' @ task_title,
       description = ''Create tests and validate the implementation of '' @ task_title,
       assignee = ''AI IDE Agent'', priority = 6, feature = ''testing''\<rparr>]"

definition ui_keywords :: "string list" where
  "ui_keywords = [''component'', ''ui'', ''interface'', ''form'']"

definition analyze_and_break_down_task :: "string \<Rightarrow> string \<Rightarrow> task_spec list" where
  "analyze_and_break_down_task task_title task_description =
     (let txt = combined_text task_title task_description in
      if contains txt ''api'' \<and> contains txt ''endpoint'' then api_subtasks task_title
      else if any_kw ui_keywords txt then ui_subtasks task_title
      else generic_subtasks task_title)"


section \<open>Assignee policy\<close>

text \<open>\<open>select_assignee\<close> of \<open>tests/test_task_agent_simple.py\<close>: three keyword tests in
  sequence, each returning at once, and a default.\<close>

definition planning_keywords :: "string list" where
  "planning_keywords = [''design'', ''plan'', ''strategy'', ''requirements'', ''review'']"

definition orchestration_keywords :: "string list" where
  "orchestration_keywords = [''coordinate'', ''manage'', ''orchestrate'', ''workflow'']"

definition implementation_keywords :: "string list" where
  "implementation_keywords = [''implement'', ''code'', ''create'', ''build'', ''develop'']"

definition select_assignee :: "string \<Rightarrow> string \<Rightarrow> string" where
  "select_assignee task_title task_description =
     (let txt = combined_text task_title task_description in
      if any_kw planning_keywords txt then ''User''
      else if any_kw orchestration_keywords txt then ''Archon''
      else if any_kw implementation_keywords txt then ''AI IDE Agent''
      else ''User'')"

text \<open>The three roles of the specification and the assignee strings that stand for them
  in the code.\<close>

datatype role = User | AutomatedAgent | Orchestrator

fun role_name :: "role \<Rightarrow> string" where
  "role_name User = ''User''"
| "role_name AutomatedAgent = ''AI IDE Agent''"
| "role_name Orchestrator = ''Archon''"

text \<open>The specification's reading of the matching, following its words: a
  case-insensitive substring test finds a block of the text that equals the keyword once
  its case is ignored.\<close>

definition ci_substring :: "string \<Rightarrow> string \<Rightarrow> bool" where
  "ci_substring keyword txt = (\<exists>ps mid ss. txt = ps @ mid @ ss \<and> lower mid = lower keyword)"

definition ci_any :: "string list \<Rightarrow> string \<Rightarrow> bool" where
  "ci_any kws txt = (\<exists>k. k \<in> set kws \<and> ci_substring k txt)"

definition spec_select_assignee :: "string \<Rightarrow> role" where
  "spec_select_assignee txt =
     (if ci_any planning_keywords txt then User
      else if ci_any orchestration_keywords txt then Orchestrator
      else if ci_any implementation_keywords txt then AutomatedAgent
      else User)"


section \<open>Parsed JSON values and Python's view of them\<close>

text \<open>The value \<open>json.loads\<close> returns. \<open>JNull\<close> is Python's \<open>None\<close>; \<open>JObj\<close> holds the
  items of a \<open>dict\<close>, looked up by key with \<^const>\<open>map_of\<close>. Numbers are integers here:
  the operations below only test a number for being zero.\<close>

datatype json =
    JNull
  | JBool bool
  | JNum int
  | JStr string
  | JArr "json list"
  | JObj "(string \<times> json) list"

text \<open>Python's truth value of an object, as \<open>if x\<close> and \<open>not x\<close> test it.\<close>

fun truthy :: "json \<Rightarrow> bool" where
  "truthy JNull = False"
| "truthy (JBool b) = b"
| "truthy (JNum n) = (n \<noteq> 0)"
| "truthy (JStr s) = (s \<noteq> [])"
| "truthy (JArr xs) = (xs \<noteq> [])"
| "truthy (JObj kvs) = (kvs \<noteq> [])"

fun type_name :: "json \<Rightarrow> string" where
  "type_name JNull = ''NoneType''"
| "type_name (JBool b) = ''bool''"
| "type_name (JNum n) = ''int''"
| "type_name (JStr s) = ''str''"
| "type_name (JArr xs) = ''list''"
| "type_name (JObj kvs) = ''dict''"

text \<open>The exceptions the operations can meet, all subclasses of \<open>Exception\<close>: one raised
  by the awaited client call, one raised by \<open>json.loads\<close>, an \<open>AttributeError\<close> (type
  name, attribute), a \<open>TypeError\<close> for iterating a value that is not iterable and a
  \<open>TypeError\<close> for using a list or a dict as a dictionary key.\<close>

datatype exn =
    CallError string
  | JSONDecodeError string
  | AttributeError string string
  | NotIterable string
  | Unhashable string

definition sq :: "string \<Rightarrow> string" where
  "sq s = [CHR 0x27] @ s @ [CHR 0x27]"

text \<open>\<open>str(e)\<close>.\<close>

fun exn_str :: "exn \<Rightarrow> string" where
  "exn_str (CallError m) = m"
| "exn_str (JSONDecodeError m) = m"
| "exn_str (AttributeError tn attr) = sq tn @ '' object has no attribute '' @ sq attr"
| "exn_str (NotIterable tn) = sq tn @ '' object is not iterable''"
| "exn_str (Unhashable tn) = ''unhashable type: '' @ sq tn"

text \<open>\<open>v.get(k, dflt)\<close>: defined on a \<open>dict\<close> only.\<close>

definition py_get :: "json \<Rightarrow> string \<Rightarrow> json \<Rightarrow> exn + json" where
  "py_get v k dflt =
     (case v of
        JObj kvs \<Rightarrow> Inr (case map_of kvs k of Some x \<Rightarrow> x | None \<Rightarrow> dflt)
      | _ \<Rightarrow> Inl (AttributeError (type_name v) ''get''))"

text \<open>\<open>a or b\<close>.\<close>

definition py_or :: "json \<Rightarrow> json \<Rightarrow> json" where
  "py_or a b = (if truthy a then a else b)"


section \<open>The remote store behind the MCP client\<close>

text \<open>The calls the operations make on the client, with their keyword arguments in the
  order of the source.\<close>

datatype request =
    CreateProject string string json
  | CreateTask json string string string int string
  | ListTasks string json
  | UpdateTask json "(string \<times> json) list"

text \<open>What \<open>json.loads(await mcp_client.manage_...(...))\<close> comes to: the call raises, the
  text it returns does not parse, or it parses to a value.\<close>

datatype reply =
    CallRaised string
  | LoadsRaised string
  | Loaded json

fun loaded :: "reply \<Rightarrow> exn + json" where
  "loaded (CallRaised m) = Inl (CallError m)"
| "loaded (LoadsRaised m) = Inl (JSONDecodeError m)"
| "loaded (Loaded v) = Inr v"

text \<open>The store is any state machine that answers a request and moves to a new state.\<close>

type_synonym 's mcp = "'s \<Rightarrow> request \<Rightarrow> reply \<times> 's"

text \<open>What an operation can change: the store, the error log of the module's logger
  (oldest entry first) and \<open>ctx.deps.project_id\<close>.\<close>

record 's world =
  store :: 's
  logged :: "string list"
  deps_project_id :: json

definition call :: "'s mcp \<Rightarrow> 's world \<Rightarrow> request \<Rightarrow> reply \<times> 's world" where
  "call mcp w rq = (let (r, s') = mcp (store w) rq in (r, w\<lparr>store := s'\<rparr>))"

definition log_error :: "string \<Rightarrow> 's world \<Rightarrow> 's world" where
  "log_error m w = w\<lparr>logged := logged w @ [m]\<rparr>"

definition create_task_request :: "json \<Rightarrow> task_spec \<Rightarrow> request" where
  "create_task_request project_id t =
     CreateTask project_id (title t) (description t) (assignee t) (priority t) (feature t)"

text \<open>The creation loop of \<open>_generate_project_tasks\<close>: the \<open>try\<close> is inside the loop body,
  so an exception is logged and the loop goes on.\<close>

fun create_tasks_isolated ::
  "'s mcp \<Rightarrow> json \<Rightarrow> task_spec list \<Rightarrow> nat \<Rightarrow> 's world \<Rightarrow> nat \<times> 's world" where
  "create_tasks_isolated mcp project_id [] tasks_created w = (tasks_created, w)"
| "create_tasks_isolated mcp project_id (t # ts) tasks_created w =
     (let (r, w') = call mcp w (create_task_request project_id t) in
      case (case loaded r of
              Inl e \<Rightarrow> Inl e
            | Inr task_data \<Rightarrow> py_get task_data ''success'' (JBool False)) of
        Inl e \<Rightarrow>
          create_tasks_isolated mcp project_id ts tasks_created
            (log_error (''Error creating task '' @ sq (title t) @ '': '' @ exn_str e) w')
      | Inr ok \<Rightarrow>
          create_tasks_isolated mcp project_id ts
            (if truthy ok then tasks_created + 1 else tasks_created) w')"

definition generate_project_tasks ::
  "'s mcp \<Rightarrow> 's world \<Rightarrow> json \<Rightarrow> string \<Rightarrow> string \<Rightarrow> nat \<times> 's world" where
  "generate_project_tasks mcp w project_id ttl descr =
     create_tasks_isolated mcp project_id (project_task_specs ttl descr) 0 w"

text \<open>The creation loop of \<open>break_down_task\<close>: no \<open>try\<close> inside the loop, so an exception
  leaves the loop and reaches the handler of the whole operation.\<close>

fun create_tasks_plain ::
  "'s mcp \<Rightarrow> json \<Rightarrow> task_spec list \<Rightarrow> nat \<Rightarrow> 's world \<Rightarrow> (exn + nat) \<times> 's world" where
  "create_tasks_plain mcp project_id [] tasks_created w = (Inr tasks_created, w)"
| "create_tasks_plain mcp project_id (t # ts) tasks_created w =
     (let (r, w') = call mcp w (create_task_request project_id t) in
      case (case loaded r of
              Inl e \<Rightarrow> Inl e
            | Inr task_data \<Rightarrow> py_get task_data ''success'' (JBool False)) of
        Inl e \<Rightarrow> (Inl e, w')
      | Inr ok \<Rightarrow>
          create_tasks_plain mcp project_id ts
            (if truthy ok then tasks_created + 1 else tasks_created) w')"

text \<open>The strings the operations return, one constructor for each f-string or literal of
  the source, with the interpolated values as arguments:
  \<^item> \<open>NoProjectSpecified\<close>: "No project specified. Please provide a project_id or ensure
    you're in a project context."
  \<^item> \<open>FailedToCreateProject err\<close>: "Failed to create project: {err}"
  \<^item> \<open>ProjectCreated title n project_id\<close>: "Successfully created project '{title}' with
    {n} initial tasks. Project ID: {project_id}"
  \<^item> \<open>ErrorCreatingProject m\<close>: "Error creating project: {m}"
  \<^item> \<open>BrokeDown task_title n\<close>: "Successfully broke down '{task_title}' into {n}
    actionable sub-tasks with appropriate assignments and priorities."
  \<^item> \<open>ErrorBreakingDown m\<close>: "Error breaking down task: {m}"
  \<^item> \<open>InvalidStatus s\<close>: "Invalid status '{s}'. Valid statuses are: todo, doing, review,
    done"
  \<^item> \<open>ErrorRetrievingTasksToFind\<close>: "Error retrieving tasks to find the specified task."
  \<^item> \<open>NoTaskFound task_title\<close>: "No task found matching '{task_title}' in this project."
  \<^item> \<open>StatusUpdated title s\<close>: "Updated '{title}' status to {emoji} {s}"
  \<^item> \<open>FailedToUpdateStatus err\<close>: "Failed to update task status: {err}"
  \<^item> \<open>ErrorUpdatingStatus m\<close>: "Error updating task status: {m}"
\<close>

datatype message =
    NoProjectSpecified
  | FailedToCreateProject json
  | ProjectCreated string nat json
  | ErrorCreatingProject string
  | BrokeDown string nat
  | ErrorBreakingDown string
  | InvalidStatus string
  | ErrorRetrievingTasksToFind
  | NoTaskFound string
  | StatusUpdated json string
  | FailedToUpdateStatus json
  | ErrorUpdatingStatus string

text \<open>The handler that closes every operation: \<open>except Exception as e\<close> logs the error
  and returns a string built from \<open>str(e)\<close>.\<close>

definition except_exception ::
  "(string \<Rightarrow> message) \<Rightarrow> string \<Rightarrow> (exn + message) \<times> 's world \<Rightarrow> message \<times> 's world" where
  "except_exception mk heading res =
     (case res of
        (Inr m, w') \<Rightarrow> (m, w')
      | (Inl e, w') \<Rightarrow> (mk (exn_str e), log_error (heading @ exn_str e) w'))"

definition break_down_body ::
  "'s mcp \<Rightarrow> 's world \<Rightarrow> string \<Rightarrow> string \<Rightarrow> json \<Rightarrow> (exn + message) \<times> 's world" where
  "break_down_body mcp w task_title task_description project_id =
     (let target_project_id = py_or project_id (deps_project_id w) in
      (if \<not> truthy target_project_id then (Inr NoProjectSpecified, w)
       else
         (let subtasks = analyze_and_break_down_task task_title task_description in
          (case create_tasks_plain mcp target_project_id subtasks 0 w of
             (Inr tasks_created, w') \<Rightarrow> (Inr (BrokeDown task_title tasks_created), w')
           | (Inl e, w') \<Rightarrow> (Inl e, w')))))"

definition break_down_task ::
  "'s mcp \<Rightarrow> 's world \<Rightarrow> string \<Rightarrow> string \<Rightarrow> json \<Rightarrow> message \<times> 's world" where
  "break_down_task mcp w task_title task_description project_id =
     except_exception ErrorBreakingDown ''Error breaking down task: ''
       (break_down_body mcp w task_title task_description project_id)"

text \<open>\<open>ctx.deps.progress_callback\<close>: absent, or a coroutine that is awaited with the step
  name and may raise.\<close>

type_synonym progress_callback = "(string \<Rightarrow> exn option) option"

definition notify :: "progress_callback \<Rightarrow> string \<Rightarrow> exn option" where
  "notify cb step = (case cb of None \<Rightarrow> None | Some f \<Rightarrow> f step)"

definition after_project_created ::
  "'s mcp \<Rightarrow> progress_callback \<Rightarrow> 's world \<Rightarrow> string \<Rightarrow> string \<Rightarrow> json \<Rightarrow>
     (exn + message) \<times> 's world" where
  "after_project_created mcp cb w1 ttl descr project_id =
     (let w2 = w1\<lparr>deps_project_id := project_id\<rparr> in
      (case notify cb ''task_generation'' of
         Some e \<Rightarrow> (Inl e, w2)
       | None \<Rightarrow>
           (let (tasks_created, w3) = generate_project_tasks mcp w2 project_id ttl descr
            in (Inr (ProjectCreated ttl tasks_created project_id), w3))))"

definition on_project_reply ::
  "'s mcp \<Rightarrow> progress_callback \<Rightarrow> 's world \<Rightarrow> string \<Rightarrow> string \<Rightarrow> reply \<Rightarrow>
     (exn + message) \<times> 's world" where
  "on_project_reply mcp cb w1 ttl descr r =
     (case loaded r of
        Inl e \<Rightarrow> (Inl e, w1)
      | Inr project_data \<Rightarrow>
          (case py_get project_data ''success'' (JBool False) of
             Inl e \<Rightarrow> (Inl e, w1)
           | Inr ok \<Rightarrow>
               (if \<not> truthy ok then
                  (case py_get project_data ''error'' (JStr ''Unknown error'') of
                     Inl e \<Rightarrow> (Inl e, w1)
                   | Inr err \<Rightarrow> (Inr (FailedToCreateProject err), w1))
                else
                  (case py_get project_data ''project_id'' JNull of
                     Inl e \<Rightarrow> (Inl e, w1)
                   | Inr project_id \<Rightarrow>
                       after_project_created mcp cb w1 ttl descr project_id))))"

definition create_project_body ::
  "'s mcp \<Rightarrow> progress_callback \<Rightarrow> 's world \<Rightarrow> string \<Rightarrow> string \<Rightarrow> json \<Rightarrow>
     (exn + message) \<times> 's world" where
  "create_project_body mcp cb w ttl descr github_repo =
     (case notify cb ''project_creation'' of
        Some e \<Rightarrow> (Inl e, w)
      | None \<Rightarrow>
          (let (r, w1) = call mcp w (CreateProject ttl descr github_repo)
           in on_project_reply mcp cb w1 ttl descr r))"

definition create_project_with_tasks ::
  "'s mcp \<Rightarrow> progress_callback \<Rightarrow> 's world \<Rightarrow> string \<Rightarrow> string \<Rightarrow> json \<Rightarrow>
     message \<times> 's world" where
  "create_project_with_tasks mcp cb w ttl descr github_repo =
     except_exception ErrorCreatingProject ''Error creating project with tasks: ''
       (create_project_body mcp cb w ttl descr github_repo)"

text \<open>The list comprehension of \<open>update_task_status\<close>:
  \<open>[task for task in tasks if task_title.lower() in task.get("title", "").lower()]\<close>.\<close>

definition title_matches :: "string \<Rightarrow> json \<Rightarrow> exn + bool" where
  "title_matches task_title task =
     (case py_get task ''title'' (JStr '''') of
        Inl e \<Rightarrow> Inl e
      | Inr (JStr s) \<Rightarrow> Inr (contains (lower s) (lower task_title))
      | Inr v \<Rightarrow> Inl (AttributeError (type_name v) ''lower''))"

fun matching_in :: "string \<Rightarrow> json list \<Rightarrow> exn + json list" where
  "matching_in task_title [] = Inr []"
| "matching_in task_title (task # rest) =
     (case title_matches task_title task of
        Inl e \<Rightarrow> Inl e
      | Inr b \<Rightarrow>
          (case matching_in task_title rest of
             Inl e \<Rightarrow> Inl e
           | Inr ms \<Rightarrow> Inr (if b then task # ms else ms)))"

text \<open>Iterating the value under \<open>"tasks"\<close>: a list gives its elements, a string its
  characters and a dict its keys (strings both, on which \<open>.get\<close> fails), anything else is
  not iterable.\<close>

definition matching_tasks :: "string \<Rightarrow> json \<Rightarrow> exn + json list" where
  "matching_tasks task_title tasks =
     (case tasks of
        JArr ts \<Rightarrow> matching_in task_title ts
      | JStr s \<Rightarrow> (if s = [] then Inr [] else Inl (AttributeError ''str'' ''get''))
      | JObj kvs \<Rightarrow> (if kvs = [] then Inr [] else Inl (AttributeError ''str'' ''get''))
      | v \<Rightarrow> Inl (NotIterable (type_name v)))"

definition valid_statuses :: "string list" where
  "valid_statuses = [''todo'', ''doing'', ''review'', ''done'']"

text \<open>The second half of \<open>update_task_status\<close>: the update call for the task that was
  found, and the message built from its reply.\<close>

definition on_update_reply :: "'s world \<Rightarrow> json \<Rightarrow> string \<Rightarrow> reply \<Rightarrow> (exn + message) \<times> 's world" where
  "on_update_reply w2 task new_status r2 =
     (case loaded r2 of
        Inl e \<Rightarrow> (Inl e, w2)
      | Inr update_data \<Rightarrow>
          (case py_get update_data ''success'' (JBool False) of
             Inl e \<Rightarrow> (Inl e, w2)
           | Inr ok \<Rightarrow>
               (if truthy ok then
                  (case py_get task ''title'' JNull of
                     Inl e \<Rightarrow> (Inl e, w2)
                   | Inr shown \<Rightarrow> (Inr (StatusUpdated shown new_status), w2))
                else
                  (case py_get update_data ''error'' (JStr ''Unknown error'') of
                     Inl e \<Rightarrow> (Inl e, w2)
                   | Inr err \<Rightarrow> (Inr (FailedToUpdateStatus err), w2)))))"

definition update_found ::
  "'s mcp \<Rightarrow> 's world \<Rightarrow> json \<Rightarrow> string \<Rightarrow> (exn + message) \<times> 's world" where
  "update_found mcp w1 task new_status =
     (case py_get task ''id'' JNull of
        Inl e \<Rightarrow> (Inl e, w1)
      | Inr task_id \<Rightarrow>
          (let (r2, w2) = call mcp w1 (UpdateTask task_id [(''status'', JStr new_status)])
           in on_update_reply w2 task new_status r2))"

text \<open>The first half: the listing, the search by title, and the choice of the first
  match.\<close>

definition on_list_reply ::
  "'s mcp \<Rightarrow> 's world \<Rightarrow> string \<Rightarrow> string \<Rightarrow> reply \<Rightarrow> (exn + message) \<times> 's world" where
  "on_list_reply mcp w1 task_title new_status r =
     (case loaded r of
        Inl e \<Rightarrow> (Inl e, w1)
      | Inr tasks_data \<Rightarrow>
          (case py_get tasks_data ''success'' (JBool False) of
             Inl e \<Rightarrow> (Inl e, w1)
           | Inr ok \<Rightarrow>
               (if \<not> truthy ok then (Inr ErrorRetrievingTasksToFind, w1)
                else
                  (case py_get tasks_data ''tasks'' (JArr []) of
                     Inl e \<Rightarrow> (Inl e, w1)
                   | Inr tasks \<Rightarrow>
                       (case matching_tasks task_title tasks of
                          Inl e \<Rightarrow> (Inl e, w1)
                        | Inr ms \<Rightarrow>
                            (case ms of
                               [] \<Rightarrow> (Inr (NoTaskFound task_title), w1)
                             | task # _ \<Rightarrow> update_found mcp w1 task new_status))))))"

definition update_status_body ::
  "'s mcp \<Rightarrow> 's world \<Rightarrow> string \<Rightarrow> string \<Rightarrow> json \<Rightarrow> (exn + message) \<times> 's world" where
  "update_status_body mcp w task_title new_status project_id =
     (let target_project_id = py_or project_id (deps_project_id w) in
      (if \<not> truthy target_project_id then (Inr NoProjectSpecified, w)
       else if new_status \<notin> set valid_statuses then (Inr (InvalidStatus new_status), w)
       else
         (let (r, w1) = call mcp w (ListTasks ''project'' target_project_id)
          in on_list_reply mcp w1 task_title new_status r)))"

definition update_task_status ::
  "'s mcp \<Rightarrow> 's world \<Rightarrow> string \<Rightarrow> string \<Rightarrow> json \<Rightarrow> message \<times> 's world" where
  "update_task_status mcp w task_title new_status project_id =
     except_exception ErrorUpdatingStatus ''Error updating task status: ''
       (update_status_body mcp w task_title new_status project_id)"

text \<open>A store for examples: it answers every request from a fixed table and records the
  requests it has received, oldest first.\<close>

definition scripted :: "(request \<Rightarrow> reply) \<Rightarrow> request list mcp" where
  "scripted answer received rq = (answer rq, received @ [rq])"

definition fresh :: "request list world" where
  "fresh = \<lparr>store = [], logged = [], deps_project_id = JNull\<rparr>"


text \<open>The replies the store gives when every request of a list is issued in order, and
  the state it is in afterwards.\<close>

fun replies :: "'s mcp \<Rightarrow> 's \<Rightarrow> request list \<Rightarrow> reply list" where
  "replies mcp s [] = []"
| "replies mcp s (rq # rqs) = fst (mcp s rq) # replies mcp (snd (mcp s rq)) rqs"

fun after_all :: "'s mcp \<Rightarrow> 's \<Rightarrow> request list \<Rightarrow> 's" where
  "after_all mcp s [] = s"
| "after_all mcp s (rq # rqs) = after_all mcp (snd (mcp s rq)) rqs"

text \<open>A creation is confirmed when its reply is an object whose \<open>success\<close> entry is
  true in Python's sense. A reply is faulty when handling it raises: the call or the
  parser raised, or the value is not an object.\<close>

fun confirmed :: "reply \<Rightarrow> bool" where
  "confirmed (Loaded (JObj kvs)) = (case map_of kvs ''success'' of Some v \<Rightarrow> truthy v | None \<Rightarrow> False)"
| "confirmed r = False"

fun fault :: "reply \<Rightarrow> exn option" where
  "fault (CallRaised m) = Some (CallError m)"
| "fault (LoadsRaised m) = Some (JSONDecodeError m)"
| "fault (Loaded (JObj kvs)) = None"
| "fault (Loaded v) = Some (AttributeError (type_name v) ''get'')"

fun error_lines :: "task_spec list \<Rightarrow> reply list \<Rightarrow> string list" where
  "error_lines (t # ts) (r # rs) =
     (case fault r of
        None \<Rightarrow> error_lines ts rs
      | Some e \<Rightarrow> (''Error creating task '' @ sq (title t) @ '': '' @ exn_str e) # error_lines ts rs)"
| "error_lines ts rs = []"

text \<open>A listed task as the store documents it: an object whose \<open>title\<close>, when it has
  one, is a string. \<open>title_of\<close> is \<open>task.get("title", "")\<close> and \<open>id_of\<close> is
  \<open>task.get("id")\<close> on such a task.\<close>

definition titled :: "json \<Rightarrow> bool" where
  "titled t =
     (case t of
        JObj kvs \<Rightarrow> (case map_of kvs ''title'' of None \<Rightarrow> True | Some (JStr s) \<Rightarrow> True | Some _ \<Rightarrow> False)
      | _ \<Rightarrow> False)"

definition title_of :: "json \<Rightarrow> string" where
  "title_of t =
     (case t of
        JObj kvs \<Rightarrow> (case map_of kvs ''title'' of Some (JStr s) \<Rightarrow> s | _ \<Rightarrow> [])
      | _ \<Rightarrow> [])"

definition entry :: "string \<Rightarrow> json \<Rightarrow> json" where
  "entry k t =
     (case t of
        JObj kvs \<Rightarrow> (case map_of kvs k of Some v \<Rightarrow> v | None \<Rightarrow> JNull)
      | _ \<Rightarrow> JNull)"

text \<open>Scripted answers for the examples.\<close>

definition flaky :: "request \<Rightarrow> reply" where
  "flaky rq =
     (case rq of
        CreateTask p t d a n f \<Rightarrow>
          (if n = 8 then CallRaised ''connection reset''
           else Loaded (JObj [(''success'', JBool True), (''task_id'', JStr ''t1'')]))
      | _ \<Rightarrow> Loaded (JObj [(''success'', JBool True), (''project_id'', JStr ''p1'')]))"

definition refusing :: "string \<Rightarrow> request \<Rightarrow> reply" where
  "refusing err rq = Loaded (JObj [(''success'', JBool False), (''error'', JStr err)])"

definition picky :: "request \<Rightarrow> reply" where
  "picky rq =
     (case rq of
        CreateTask p t d a n f \<Rightarrow>
          (if n = 7 then Loaded (JObj [(''success'', JBool False), (''error'', JStr ''quota exceeded'')])
           else Loaded (JObj [(''success'', JBool True), (''task_id'', JStr ''t1'')]))
      | _ \<Rightarrow> Loaded (JObj [(''success'', JBool True), (''project_id'', JStr ''p1'')]))"

definition garbled_tasks :: "request \<Rightarrow> reply" where
  "garbled_tasks rq =
     (case rq of
        CreateProject t d g \<Rightarrow> Loaded (JObj [(''success'', JBool True), (''project_id'', JStr ''p1'')])
      | _ \<Rightarrow> Loaded (JArr []))"

definition board_tasks :: "json list" where
  "board_tasks =
     [JObj [(''id'', JStr ''1''), (''title'', JStr ''Design API''), (''status'', JStr ''todo'')],
      JObj [(''id'', JStr ''2''), (''title'', JStr ''Implement endpoints''), (''status'', JStr ''todo'')],
      JObj [(''id'', JStr ''3''), (''title'', JStr ''Design database''), (''status'', JStr ''todo'')]]"

definition board :: "reply \<Rightarrow> request \<Rightarrow> reply" where
  "board on_update rq =
     (case rq of
        ListTasks f v \<Rightarrow> Loaded (JObj [(''success'', JBool True), (''tasks'', JArr board_tasks)])
      | UpdateTask i u \<Rightarrow> on_update
      | _ \<Rightarrow> Loaded (JObj [(''success'', JBool True)]))"


section \<open>The agents service client\<close>

text \<open>\<open>AgentsServiceClient\<close> of \<open>agents_service_client.py\<close>. The requests it sends, and
  what \<open>client.post\<close> (or \<open>client.get\<close>), \<open>response.raise_for_status()\<close> and
  \<open>response.json()\<close> come to together: an \<open>httpx.HTTPError\<close> is raised (connection,
  timeout or status), another exception is raised, or the body parses to a value. The
  network is any state machine that answers a request. Signals that are not subclasses
  of \<open>Exception\<close> (cancellation of the task, interpreter exit) are outside this model,
  and so are the calls of the logger.\<close>

datatype http_request =
    Post string json
  | Get string

datatype http_outcome =
    RaisedHTTPError string
  | RaisedOther string
  | Body json

type_synonym 'n network = "'n \<Rightarrow> http_request \<Rightarrow> http_outcome \<times> 'n"

text \<open>The two exception classes the handlers tell apart, with \<open>str(e)\<close>.\<close>

datatype client_exn =
    HTTPError string
  | OtherException string





text \<open>The body of the \<open>try\<close> after the request has been sent: the parsed body is returned
  once \<open>result.get('success')\<close> has been evaluated for the log line, which fails on a
  value that is not a dict.\<close>

definition received :: "http_outcome \<Rightarrow> client_exn + json" where
  "received out =
     (case out of
        RaisedHTTPError m \<Rightarrow> Inl (HTTPError m)
      | RaisedOther m \<Rightarrow> Inl (OtherException m)
      | Body result \<Rightarrow>
          (case py_get result ''success'' JNull of
             Inl e \<Rightarrow> Inl (OtherException (exn_str e))
           | Inr _ \<Rightarrow> Inr result))"

text \<open>The two \<open>except\<close> clauses, \<open>httpx.HTTPError\<close> first.\<close>

definition handled :: "client_exn + json \<Rightarrow> json" where
  "handled res =
     (case res of
        Inr result \<Rightarrow> result
      | Inl (HTTPError m) \<Rightarrow>
          JObj [(''success'', JBool False), (''error'', JStr (''HTTP error: '' @ m)),
                (''result'', JNull)]
      | Inl (OtherException m) \<Rightarrow>
          JObj [(''success'', JBool False), (''error'', JStr (''Unexpected error: '' @ m)),
                (''result'', JNull)])"



text \<open>\<open>health_check\<close> has one handler for every exception and its own shape of answer.\<close>

definition health_check :: "'n network \<Rightarrow> string \<Rightarrow> 'n \<Rightarrow> json \<times> 'n" where
  "health_check net agents_url n =
     (let (out, n') = net n (Get (agents_url @ ''/health'')) in
      ((case out of
          Body v \<Rightarrow> v
        | RaisedHTTPError m \<Rightarrow> JObj [(''status'', JStr ''unhealthy''), (''error'', JStr m)]
        | RaisedOther m \<Rightarrow> JObj [(''status'', JStr ''unhealthy''), (''error'', JStr m)]), n'))"

text \<open>A network for examples: it answers from a fixed table and records the requests
  sent, oldest first.\<close>

definition wire :: "(http_request \<Rightarrow> http_outcome) \<Rightarrow> http_request list network" where
  "wire answer sent rq = (answer rq, sent @ [rq])"


section \<open>Floating-point arithmetic\<close>

text \<open>
  A Python \<open>float\<close> is an IEEE 754 binary64 number. Its finite values are rationals, and
  every arithmetic operation returns the exact result rounded to the nearest number
  with a 53-bit significand, ties going to the even significand. The model works on
  \<^typ>\<open>rat\<close>: \<open>bexp x\<close> is the binary exponent of a positive \<open>x\<close>
  (\<open>2 ^ bexp x \<le> x < 2 ^ (bexp x + 1)\<close>), \<open>rne\<close> rounds to the nearest integer with ties to
  even, and \<open>fl\<close> rounds to 53 significant bits. The exponent is not bounded: overflow and
  subnormal numbers, which quotients of list lengths never reach, are not modelled.
\<close>

definition pow2 :: "int \<Rightarrow> rat" where
  "pow2 e = (if 0 \<le> e then 2 ^ nat e else 1 / 2 ^ nat (- e))"

definition bexp :: "rat \<Rightarrow> int" where
  "bexp x = (if 1 \<le> x then bitlen \<lfloor>x\<rfloor> - 1 else - bitlen (\<lceil>1 / x\<rceil> - 1))"

definition rne :: "rat \<Rightarrow> int" where
  "rne q =
     (let f = \<lfloor>q\<rfloor>; r = q - of_int f in
      if r < 1 / 2 then f
      else if 1 / 2 < r then f + 1
      else if even f then f else f + 1)"

definition fl :: "rat \<Rightarrow> rat" where
  "fl x =
     (if x = 0 then 0
      else
        let a = \<bar>x\<bar>; ulp = pow2 (bexp a - 52) in
        sgn x * (of_int (rne (a / ulp)) * ulp))"

text \<open>\<open>a / b\<close> on two \<open>int\<close>s with \<open>b\<close> not zero, \<open>x * y\<close> and \<open>x + y\<close> on floats (an \<open>int\<close>
  operand such as \<open>6\<close> is converted exactly), and \<open>int(x)\<close>, which truncates toward
  zero.\<close>

definition fdiv :: "nat \<Rightarrow> nat \<Rightarrow> rat" where
  "fdiv a b = fl (of_nat a / of_nat b)"

definition fmul :: "rat \<Rightarrow> rat \<Rightarrow> rat" where
  "fmul x y = fl (x * y)"

definition fadd :: "rat \<Rightarrow> rat \<Rightarrow> rat" where
  "fadd x y = fl (x + y)"

definition py_int :: "rat \<Rightarrow> int" where
  "py_int x = (if 0 \<le> x then \<lfloor>x\<rfloor> else \<lceil>x\<rceil>)"


section \<open>Project health\<close>

text \<open>The two counting dictionaries of \<open>_analyze_project_health\<close>, as lists of items. A
  key is any hashable value; \<open>True\<close> and \<open>1\<close> (and \<open>False\<close> and \<open>0\<close>) are the same key. A
  list or a dict as key raises.\<close>

type_synonym counts = "(json \<times> nat) list"

definition hashable :: "json \<Rightarrow> bool" where
  "hashable v = (case v of JArr xs \<Rightarrow> False | JObj kvs \<Rightarrow> False | _ \<Rightarrow> True)"

definition key_of :: "json \<Rightarrow> json" where
  "key_of v = (case v of JBool b \<Rightarrow> JNum (if b then 1 else 0) | _ \<Rightarrow> v)"

text \<open>\<open>c.get(k, 0)\<close>, which is \<open>c[k]\<close> for a key that is present.\<close>

definition count_of :: "counts \<Rightarrow> json \<Rightarrow> nat" where
  "count_of c k = (case map_of c (key_of k) of Some n \<Rightarrow> n | None \<Rightarrow> 0)"

text \<open>\<open>c[k] = c.get(k, 0) + 1\<close>.\<close>

definition bump :: "counts \<Rightarrow> json \<Rightarrow> exn + counts" where
  "bump c k =
     (if hashable k then Inr (AList.update (key_of k) (count_of c k + 1) c)
      else Inl (Unhashable (type_name k)))"

fun tally :: "json list \<Rightarrow> counts \<Rightarrow> counts \<Rightarrow> exn + counts \<times> counts" where
  "tally [] status_counts assignee_counts = Inr (status_counts, assignee_counts)"
| "tally (task # rest) status_counts assignee_counts =
     (case py_get task ''status'' (JStr ''todo'') of
        Inl e \<Rightarrow> Inl e
      | Inr status \<Rightarrow>
          (case py_get task ''assignee'' (JStr ''User'') of
             Inl e \<Rightarrow> Inl e
           | Inr who \<Rightarrow>
               (case bump status_counts status of
                  Inl e \<Rightarrow> Inl e
                | Inr status_counts' \<Rightarrow>
                    (case bump assignee_counts who of
                       Inl e \<Rightarrow> Inl e
                     | Inr assignee_counts' \<Rightarrow> tally rest status_counts' assignee_counts'))))"

definition initial_status_counts :: counts where
  "initial_status_counts =
     [(JStr ''done'', 0), (JStr ''doing'', 0), (JStr ''todo'', 0), (JStr ''review'', 0)]"

definition initial_assignee_counts :: counts where
  "initial_assignee_counts = [(JStr ''User'', 0), (JStr ''AI IDE Agent'', 0), (JStr ''Archon'', 0)]"

text \<open>The term in brackets of the score, \<open>completion_rate * 6 + activity_rate * 4\<close>, and
  the score \<open>min(10, int((...) * 10))\<close>.\<close>

definition weighted_progress :: "rat \<Rightarrow> rat \<Rightarrow> rat" where
  "weighted_progress completion_rate activity_rate =
     fadd (fmul completion_rate 6) (fmul activity_rate 4)"

definition score_of :: "rat \<Rightarrow> rat \<Rightarrow> int" where
  "score_of completion_rate activity_rate =
     min 10 (py_int (fmul (weighted_progress completion_rate activity_rate) 10))"

text \<open>The counting loop followed by the two rates, \<open>completion_rate\<close> and
  \<open>activity_rate\<close>; the list is not empty here.\<close>

definition health_rates :: "json list \<Rightarrow> exn + counts \<times> rat \<times> rat" where
  "health_rates tasks =
     (let total_tasks = length tasks in
      (case tally tasks initial_status_counts initial_assignee_counts of
         Inl e \<Rightarrow> Inl e
       | Inr (status_counts, assignee_counts) \<Rightarrow>
           (let completion_rate = fdiv (count_of status_counts (JStr ''done'')) total_tasks;
                activity_rate =
                  fdiv (count_of status_counts (JStr ''doing'') +
                        count_of status_counts (JStr ''review'')) total_tasks
            in Inr (status_counts, completion_rate, activity_rate))))"

text \<open>The figures of the report that \<open>_analyze_project_health\<close> returns. The lists of
  insights, recommendations and next actions, which it also returns, are not part of
  this model.\<close>

record health =
  health_score :: int
  completed :: nat
  in_progress :: nat
  todo :: nat
  review :: nat

definition analyze_project_health :: "json list \<Rightarrow> exn + health" where
  "analyze_project_health tasks =
     (if length tasks = 0 then
        Inr \<lparr>health_score = 0, completed = 0, in_progress = 0, todo = 0, review = 0\<rparr>
      else
        (case health_rates tasks of
           Inl e \<Rightarrow> Inl e
         | Inr (status_counts, completion_rate, activity_rate) \<Rightarrow>
             Inr \<lparr>health_score = score_of completion_rate activity_rate,
                  completed = count_of status_counts (JStr ''done''),
                  in_progress = count_of status_counts (JStr ''doing''),
                  todo = count_of status_counts (JStr ''todo''),
                  review = count_of status_counts (JStr ''review'')\<rparr>))"


text \<open>A task as the report reads it, and the tasks on which the counting cannot raise:
  objects whose status and assignee are hashable.\<close>

definition status_of :: "json \<Rightarrow> json" where
  "status_of t =
     (case t of
        JObj kvs \<Rightarrow> (case map_of kvs ''status'' of Some v \<Rightarrow> v | None \<Rightarrow> JStr ''todo'')
      | _ \<Rightarrow> JNull)"

definition assignee_of :: "json \<Rightarrow> json" where
  "assignee_of t =
     (case t of
        JObj kvs \<Rightarrow> (case map_of kvs ''assignee'' of Some v \<Rightarrow> v | None \<Rightarrow> JStr ''User'')
      | _ \<Rightarrow> JNull)"

definition countable_task :: "json \<Rightarrow> bool" where
  "countable_task t =
     (case t of
        JObj kvs \<Rightarrow> hashable (status_of t) \<and> hashable (assignee_of t)
      | _ \<Rightarrow> False)"

definition with_status :: "string \<Rightarrow> json list \<Rightarrow> nat" where
  "with_status s tasks = length (filter (\<lambda>t. status_of t = JStr s) tasks)"

definition task_in :: "string \<Rightarrow> json" where
  "task_in s = JObj [(''title'', JStr ''Task''), (''status'', JStr s)]"


section \<open>Facts about the text tests\<close>

lemma contains_iff_sublist: "contains s kw \<longleftrightarrow> sublist kw s"
  by (induction s) (auto simp: sublist_Cons_right)

lemma any_kw_iff: "any_kw kws s \<longleftrightarrow> (\<exists>k. k \<in> set kws \<and> sublist k s)"
  by (auto simp: any_kw_def list_ex_iff contains_iff_sublist)

lemma lower_append: "lower (xs @ ys) = lower xs @ lower ys"
  by (simp add: lower_def)

lemma sublist_lower_iff:
  "sublist kw (lower s) \<longleftrightarrow> (\<exists>ps mid ss. s = ps @ mid @ ss \<and> lower mid = kw)"
proof
  assume "sublist kw (lower s)"
  then obtain ps ss where eq: "map lower_char s = ps @ kw @ ss"
    by (auto simp: sublist_def lower_def)
  define mid where "mid = take (length kw) (drop (length ps) s)"
  have "map lower_char mid = take (length kw) (drop (length ps) (map lower_char s))"
    by (simp add: mid_def take_map drop_map)
  also have "\<dots> = kw"
    by (simp add: eq)
  finally have "lower mid = kw"
    by (simp add: lower_def)
  moreover have "s = take (length ps) s @ mid @ drop (length kw) (drop (length ps) s)"
    by (simp only: mid_def append_take_drop_id)
  ultimately show "\<exists>ps mid ss. s = ps @ mid @ ss \<and> lower mid = kw"
    by blast
next
  assume "\<exists>ps mid ss. s = ps @ mid @ ss \<and> lower mid = kw"
  then show "sublist kw (lower s)"
    by (auto simp: lower_append)
qed

lemma ci_any_lower:
  assumes "list_all (\<lambda>k. lower k = k) kws"
  shows "ci_any kws s \<longleftrightarrow> any_kw kws (lower s)"
proof -
  have "\<And>k. k \<in> set kws \<Longrightarrow> ci_substring k s \<longleftrightarrow> sublist k (lower s)"
    using assms by (simp add: ci_substring_def sublist_lower_iff list_all_iff)
  then show ?thesis
    by (auto simp: ci_any_def any_kw_iff)
qed

lemma planning_keywords_lower: "list_all (\<lambda>k. lower k = k) planning_keywords"
  by code_simp

lemma orchestration_keywords_lower: "list_all (\<lambda>k. lower k = k) orchestration_keywords"
  by code_simp

lemma implementation_keywords_lower: "list_all (\<lambda>k. lower k = k) implementation_keywords"
  by code_simp


section \<open>Project decomposition\<close>

lemma domain_templates_nonempty:
  "generate_auth_tasks \<noteq> []" "generate_api_tasks \<noteq> []"
  "generate_frontend_tasks \<noteq> []" "generate_database_tasks \<noteq> []"
  by (simp_all add: generate_auth_tasks_def generate_api_tasks_def generate_frontend_tasks_def
      generate_database_tasks_def)

lemma project_task_specs_blocks:
  "project_task_specs ttl descr =
    (if any_kw auth_keywords (combined_text ttl descr) then generate_auth_tasks else []) @
    (if any_kw api_keywords (combined_text ttl descr) then generate_api_tasks else []) @
    (if any_kw frontend_keywords (combined_text ttl descr) then generate_frontend_tasks else []) @
    (if any_kw database_keywords (combined_text ttl descr) then generate_database_tasks else []) @
    (if any_kw auth_keywords (combined_text ttl descr) \<or>
        any_kw api_keywords (combined_text ttl descr) \<or>
        any_kw frontend_keywords (combined_text ttl descr) \<or>
        any_kw database_keywords (combined_text ttl descr)
     then [] else generate_generic_project_tasks ttl) @
    common_project_tasks ttl"
  by (simp add: project_task_specs_def Let_def domain_templates_nonempty)

lemma template_priorities:
  "map priority generate_auth_tasks = [9, 9, 8, 8]"
  "map priority generate_api_tasks = [9, 8, 6]"
  "map priority generate_frontend_tasks = [9, 7, 6]"
  "map priority generate_database_tasks = [9, 8, 7]"
  "map priority (generate_generic_project_tasks ttl) = [9, 8, 7]"
  by (simp_all add: generate_auth_tasks_def generate_api_tasks_def generate_frontend_tasks_def
      generate_database_tasks_def generate_generic_project_tasks_def)

lemma common_project_tasks_shape:
  "map (\<lambda>t. (title t, assignee t, priority t)) (common_project_tasks ttl) =
     [(''Create project documentation'', ''Archon'', 7),
      (''Set up testing framework'', ''AI IDE Agent'', 6)]"
  by (simp add: common_project_tasks_def)

text \<open>
  Claim C1. For every title and description, the list of specifications that project
  decomposition builds is: the authentication template if a keyword of the
  authentication set occurs in the lower-cased combined text, then the API template, the
  frontend template and the database template under the same test for their sets, in
  this order and each one whole; then the generic template when no set matched; then the
  two common tasks, which are therefore always the last two entries: "Create project
  documentation" (assignee Archon, the documentation owner, priority 7) and "Set up
  testing framework" (assignee AI IDE Agent, priority 6). The templates have 4, 3, 3 and
  3 entries with priorities 9,9,8,8; 9,8,6; 9,7,6; 9,8,7.
\<close>

theorem project_decomposition_emits_templates:
  "project_task_specs ttl descr =
     (if (\<exists>k. k \<in> set auth_keywords \<and> sublist k (lower (ttl @ '' '' @ descr)))
      then generate_auth_tasks else []) @
     (if (\<exists>k. k \<in> set api_keywords \<and> sublist k (lower (ttl @ '' '' @ descr)))
      then generate_api_tasks else []) @
     (if (\<exists>k. k \<in> set frontend_keywords \<and> sublist k (lower (ttl @ '' '' @ descr)))
      then generate_frontend_tasks else []) @
     (if (\<exists>k. k \<in> set database_keywords \<and> sublist k (lower (ttl @ '' '' @ descr)))
      then generate_database_tasks else []) @
     (if (\<exists>k. k \<in> set (auth_keywords @ api_keywords @ frontend_keywords @ database_keywords) \<and>
            sublist k (lower (ttl @ '' '' @ descr)))
      then [] else generate_generic_project_tasks ttl) @
     common_project_tasks ttl
   \<and> map priority generate_auth_tasks = [9, 9, 8, 8]
   \<and> map priority generate_api_tasks = [9, 8, 6]
   \<and> map priority generate_frontend_tasks = [9, 7, 6]
   \<and> map priority generate_database_tasks = [9, 8, 7]
   \<and> map (\<lambda>t. (title t, assignee t, priority t)) (common_project_tasks ttl) =
       [(''Create project documentation'', role_name Orchestrator, 7),
        (''Set up testing framework'', role_name AutomatedAgent, 6)]
   \<and> 2 \<le> length (project_task_specs ttl descr)
   \<and> drop (length (project_task_specs ttl descr) - 2) (project_task_specs ttl descr) =
       common_project_tasks ttl"
proof -
  have ex_append: "\<And>P xs ys. (\<exists>k. k \<in> set (xs @ ys) \<and> P k) \<longleftrightarrow>
      (\<exists>k. k \<in> set xs \<and> P k) \<or> (\<exists>k. k \<in> set ys \<and> P k)"
    by auto
  have len: "length (common_project_tasks ttl) = 2"
    by (simp add: common_project_tasks_def)
  obtain body where body: "project_task_specs ttl descr = body @ common_project_tasks ttl"
    unfolding project_task_specs_blocks by (metis append.assoc)
  have "drop (length (project_task_specs ttl descr) - 2) (project_task_specs ttl descr) =
      common_project_tasks ttl"
    by (simp add: body len)
  moreover have "2 \<le> length (project_task_specs ttl descr)"
    by (simp add: body len)
  moreover have "project_task_specs ttl descr =
     (if (\<exists>k. k \<in> set auth_keywords \<and> sublist k (lower (ttl @ '' '' @ descr)))
      then generate_auth_tasks else []) @
     (if (\<exists>k. k \<in> set api_keywords \<and> sublist k (lower (ttl @ '' '' @ descr)))
      then generate_api_tasks else []) @
     (if (\<exists>k. k \<in> set frontend_keywords \<and> sublist k (lower (ttl @ '' '' @ descr)))
      then generate_frontend_tasks else []) @
     (if (\<exists>k. k \<in> set database_keywords \<and> sublist k (lower (ttl @ '' '' @ descr)))
      then generate_database_tasks else []) @
     (if (\<exists>k. k \<in> set (auth_keywords @ api_keywords @ frontend_keywords @ database_keywords) \<and>
            sublist k (lower (ttl @ '' '' @ descr)))
      then [] else generate_generic_project_tasks ttl) @
     common_project_tasks ttl"
    unfolding ex_append project_task_specs_blocks [of ttl descr] any_kw_iff combined_text_def
    by (rule refl)
  moreover have "map (\<lambda>t. (title t, assignee t, priority t)) (common_project_tasks ttl) =
       [(''Create project documentation'', role_name Orchestrator, 7),
        (''Set up testing framework'', role_name AutomatedAgent, 6)]"
    by (simp add: common_project_tasks_shape)
  ultimately show ?thesis
    using template_priorities(1-4) by blast
qed

text \<open>
  Claim C6. When no keyword of any of the four domain sets occurs in the lower-cased
  combined text, project decomposition builds exactly five specifications: the three of
  the generic template (priorities 9, 8, 7) followed by the two common tasks.
\<close>

theorem project_decomposition_generic_fallback:
  assumes "\<not> (\<exists>k. k \<in> set (auth_keywords @ api_keywords @ frontend_keywords @ database_keywords) \<and>
            sublist k (lower (ttl @ '' '' @ descr)))"
  shows "project_task_specs ttl descr =
           generate_generic_project_tasks ttl @ common_project_tasks ttl
       \<and> length (project_task_specs ttl descr) = 5
       \<and> length (generate_generic_project_tasks ttl) = 3
       \<and> map priority (generate_generic_project_tasks ttl) = [9, 8, 7]
       \<and> length (common_project_tasks ttl) = 2"
proof -
  from assms have none:
    "\<not> any_kw auth_keywords (combined_text ttl descr)"
    "\<not> any_kw api_keywords (combined_text ttl descr)"
    "\<not> any_kw frontend_keywords (combined_text ttl descr)"
    "\<not> any_kw database_keywords (combined_text ttl descr)"
    by (auto simp: any_kw_iff combined_text_def)
  have eq: "project_task_specs ttl descr =
      generate_generic_project_tasks ttl @ common_project_tasks ttl"
    by (simp add: project_task_specs_blocks none)
  show ?thesis
    by (simp add: eq) (simp add: generate_generic_project_tasks_def common_project_tasks_def)
qed

lemma custom_project_matches_nothing:
  "\<not> any_kw (auth_keywords @ api_keywords @ frontend_keywords @ database_keywords)
       (lower (''Custom Project'' @ '' '' @ ''Unique business logic with special features''))"
  by code_simp

theorem project_decomposition_generic_fallback_witness:
  "project_task_specs ''Custom Project'' ''Unique business logic with special features'' =
     generate_generic_project_tasks ''Custom Project'' @ common_project_tasks ''Custom Project''
   \<and> length (project_task_specs ''Custom Project''
        ''Unique business logic with special features'') = 5"
  using project_decomposition_generic_fallback
    [of "''Custom Project''" "''Unique business logic with special features''"]
    custom_project_matches_nothing
  unfolding any_kw_iff by blast


section \<open>Task breakdown\<close>

lemma subtask_shapes:
  "map priority (api_subtasks t) = [8, 9, 8, 7, 6]"
  "map assignee (api_subtasks t) =
     [''User'', ''AI IDE Agent'', ''AI IDE Agent'', ''AI IDE Agent'', ''AI IDE Agent'']"
  "map priority (ui_subtasks t) = [8, 8, 7, 6]"
  "map priority (generic_subtasks t) = [8, 7, 6]"
  by (simp_all add: api_subtasks_def ui_subtasks_def generic_subtasks_def)

lemma breakdown_api_example:
  "analyze_and_break_down_task ''Build user API endpoint'' '''' =
     api_subtasks ''Build user API endpoint''"
  by code_simp

lemma breakdown_ui_example:
  "analyze_and_break_down_task ''Design login form'' '''' = ui_subtasks ''Design login form''"
  by code_simp

text \<open>
  Claim C2. Task breakdown returns exactly one template, the first that applies: the
  five-step API template (priorities 8,9,8,7,6; the first step for User, the other four
  for AI IDE Agent) when the lower-cased combined text contains both "api" and
  "endpoint"; otherwise the four-step UI template (priorities 8,8,7,6) when it contains
  one of "component", "ui", "interface", "form"; otherwise the three-step generic
  template (priorities 8,7,6). "Build user API endpoint" with an empty description gives
  the five API subtasks, "Design login form" the four UI subtasks.
\<close>

theorem task_breakdown_first_match:
  "analyze_and_break_down_task t d =
     (if sublist ''api'' (lower (t @ '' '' @ d)) \<and> sublist ''endpoint'' (lower (t @ '' '' @ d))
      then api_subtasks t
      else if (\<exists>k. k \<in> set [''component'', ''ui'', ''interface'', ''form''] \<and>
                 sublist k (lower (t @ '' '' @ d)))
      then ui_subtasks t
      else generic_subtasks t)
   \<and> map priority (api_subtasks t) = [8, 9, 8, 7, 6]
   \<and> map assignee (api_subtasks t) =
       [role_name User, role_name AutomatedAgent, role_name AutomatedAgent,
        role_name AutomatedAgent, role_name AutomatedAgent]
   \<and> map priority (ui_subtasks t) = [8, 8, 7, 6]
   \<and> map priority (generic_subtasks t) = [8, 7, 6]
   \<and> map priority (analyze_and_break_down_task ''Build user API endpoint'' '''') = [8, 9, 8, 7, 6]
   \<and> length (analyze_and_break_down_task ''Build user API endpoint'' '''') = 5
   \<and> analyze_and_break_down_task ''Design login form'' '''' = ui_subtasks ''Design login form''
   \<and> length (analyze_and_break_down_task ''Design login form'' '''') = 4"
proof -
  have "analyze_and_break_down_task t d =
     (if sublist ''api'' (lower (t @ '' '' @ d)) \<and> sublist ''endpoint'' (lower (t @ '' '' @ d))
      then api_subtasks t
      else if (\<exists>k. k \<in> set [''component'', ''ui'', ''interface'', ''form''] \<and>
                 sublist k (lower (t @ '' '' @ d)))
      then ui_subtasks t
      else generic_subtasks t)"
    unfolding analyze_and_break_down_task_def Let_def combined_text_def contains_iff_sublist
      any_kw_iff ui_keywords_def by (rule refl)
  moreover have "length (api_subtasks ''Build user API endpoint'') = 5"
    "length (ui_subtasks ''Design login form'') = 4"
    by (simp_all add: api_subtasks_def ui_subtasks_def)
  ultimately show ?thesis
    by (simp add: subtask_shapes breakdown_api_example breakdown_ui_example)
qed


section \<open>Assignee selection\<close>

lemma select_assignee_refines:
  "select_assignee t d = role_name (spec_select_assignee (t @ '' '' @ d))"
  by (simp add: select_assignee_def spec_select_assignee_def combined_text_def Let_def
      ci_any_lower [OF planning_keywords_lower] ci_any_lower [OF orchestration_keywords_lower]
      ci_any_lower [OF implementation_keywords_lower])

lemma select_assignee_examples:
  "select_assignee ''Design API architecture'' '''' = ''User''"
  "select_assignee ''Implement OAuth flow'' '''' = ''AI IDE Agent''"
  "select_assignee ''Coordinate team workflow'' '''' = ''Archon''"
  by code_simp+

text \<open>
  Claim C7. \<open>select_assignee\<close> tests the combined text without regard to case and takes
  the first rule that applies: a planning keyword gives User; otherwise an orchestration
  keyword gives the orchestrator (Archon); otherwise an implementation keyword gives the
  automated agent (AI IDE Agent); otherwise User. "Design API architecture" gives User,
  "Implement OAuth flow" the automated agent, "Coordinate team workflow" the
  orchestrator, and a text with both a planning and an orchestration keyword gives User.
\<close>

theorem select_assignee_precedence:
  "select_assignee t d =
     role_name
       (if ci_any [''design'', ''plan'', ''strategy'', ''requirements'', ''review''] (t @ '' '' @ d)
        then User
        else if ci_any [''coordinate'', ''manage'', ''orchestrate'', ''workflow''] (t @ '' '' @ d)
        then Orchestrator
        else if ci_any [''implement'', ''code'', ''create'', ''build'', ''develop''] (t @ '' '' @ d)
        then AutomatedAgent
        else User)
   \<and> select_assignee ''Design API architecture'' '''' = role_name User
   \<and> select_assignee ''Implement OAuth flow'' '''' = role_name AutomatedAgent
   \<and> select_assignee ''Coordinate team workflow'' '''' = role_name Orchestrator
   \<and> (ci_any planning_keywords (t @ '' '' @ d) \<and> ci_any orchestration_keywords (t @ '' '' @ d)
        \<longrightarrow> select_assignee t d = role_name User)"
  using select_assignee_refines [of t d]
  by (simp add: spec_select_assignee_def select_assignee_examples planning_keywords_def
      orchestration_keywords_def implementation_keywords_def)

lemma plan_and_manage_matches:
  "any_kw planning_keywords (lower (''Plan and manage the release'' @ '' '' @ ''''))"
  "any_kw orchestration_keywords (lower (''Plan and manage the release'' @ '' '' @ ''''))"
  by code_simp+

theorem select_assignee_precedence_witness:
  "ci_any planning_keywords (''Plan and manage the release'' @ '' '' @ '''')
   \<and> ci_any orchestration_keywords (''Plan and manage the release'' @ '' '' @ '''')
   \<and> select_assignee ''Plan and manage the release'' '''' = ''User''"
proof -
  have a: "ci_any planning_keywords (''Plan and manage the release'' @ '' '' @ '''')"
    using plan_and_manage_matches(1)
    by (simp only: ci_any_lower [OF planning_keywords_lower])
  have b: "ci_any orchestration_keywords (''Plan and manage the release'' @ '' '' @ '''')"
    using plan_and_manage_matches(2)
    by (simp only: ci_any_lower [OF orchestration_keywords_lower])
  have "select_assignee ''Plan and manage the release'' '''' = role_name User"
    using select_assignee_precedence [of "''Plan and manage the release''" "''''"] a b
    by blast
  then show ?thesis
    using a b by simp
qed


section \<open>The creation loops\<close>

lemma handle_reply_cases:
  "(case loaded r of Inl e \<Rightarrow> Inl e | Inr task_data \<Rightarrow> py_get task_data ''success'' (JBool False)) =
     (case fault r of
        Some e \<Rightarrow> Inl e
      | None \<Rightarrow> Inr (case r of Loaded (JObj kvs) \<Rightarrow> (case map_of kvs ''success'' of Some v \<Rightarrow> v | None \<Rightarrow> JBool False) | _ \<Rightarrow> JBool False))"
  by (cases r rule: fault.cases) (simp_all add: py_get_def)

lemma truthy_success_confirmed:
  "fault r = None \<Longrightarrow>
   truthy (case r of Loaded (JObj kvs) \<Rightarrow> (case map_of kvs ''success'' of Some v \<Rightarrow> v | None \<Rightarrow> JBool False) | _ \<Rightarrow> JBool False) = confirmed r"
  by (cases r rule: fault.cases) (simp_all split: option.splits)

lemma fault_not_confirmed: "fault r = Some e \<Longrightarrow> \<not> confirmed r"
  by (cases r rule: fault.cases) simp_all

lemma create_tasks_isolated_eq:
  "create_tasks_isolated mcp pid ts n w =
     (n + length (filter confirmed (replies mcp (store w) (map (create_task_request pid) ts))),
      w\<lparr>store := after_all mcp (store w) (map (create_task_request pid) ts),
        logged := logged w @ error_lines ts (replies mcp (store w) (map (create_task_request pid) ts))\<rparr>)"
proof (induction ts arbitrary: n w)
  case Nil
  show ?case by simp
next
  case (Cons t ts)
  obtain r s' where step: "mcp (store w) (create_task_request pid t) = (r, s')"
    by (cases "mcp (store w) (create_task_request pid t)")
  show ?case
  proof (cases "fault r")
    case None
    then show ?thesis
      using step
      by (simp add: call_def handle_reply_cases Cons.IH truthy_success_confirmed)
  next
    case (Some e)
    then show ?thesis
      using step fault_not_confirmed [OF Some]
      by (simp add: call_def handle_reply_cases Cons.IH log_error_def)
  qed
qed

lemma create_tasks_plain_eq:
  assumes "list_all (\<lambda>r. fault r = None) (replies mcp (store w) (map (create_task_request pid) ts))"
  shows "create_tasks_plain mcp pid ts n w =
     (Inr (n + length (filter confirmed (replies mcp (store w) (map (create_task_request pid) ts)))),
      w\<lparr>store := after_all mcp (store w) (map (create_task_request pid) ts)\<rparr>)"
  using assms
proof (induction ts arbitrary: n w)
  case Nil
  show ?case by simp
next
  case (Cons t ts)
  obtain r s' where step: "mcp (store w) (create_task_request pid t) = (r, s')"
    by (cases "mcp (store w) (create_task_request pid t)")
  from Cons.prems step have ok: "fault r = None"
    and rest: "list_all (\<lambda>r. fault r = None) (replies mcp s' (map (create_task_request pid) ts))"
    by simp_all
  show ?case
    using step ok rest
    by (simp add: call_def handle_reply_cases Cons.IH truthy_success_confirmed)
qed

lemma length_replies: "length (replies mcp s rqs) = length rqs"
  by (induction rqs arbitrary: s) simp_all

section \<open>Searching the listed tasks\<close>

lemma ci_substring_code [code]: "ci_substring k s = contains (lower s) (lower k)"
  by (simp add: ci_substring_def contains_iff_sublist sublist_lower_iff)

lemma title_matches_titled:
  "titled t \<Longrightarrow> title_matches tt t = Inr (ci_substring tt (title_of t))"
  by (auto simp: titled_def title_matches_def title_of_def py_get_def ci_substring_code
      split: json.splits option.splits)

lemma matching_in_titled:
  "list_all titled ts \<Longrightarrow>
   matching_in tt ts = Inr (filter (\<lambda>t. ci_substring tt (title_of t)) ts)"
  by (induction ts) (simp_all add: title_matches_titled)

lemma py_get_obj: "py_get (JObj kvs) k dflt = Inr (case map_of kvs k of Some x \<Rightarrow> x | None \<Rightarrow> dflt)"
  by (simp add: py_get_def)

lemma py_get_fault: "fault (Loaded v) = Some e \<Longrightarrow> py_get v k dflt = Inl e"
  by (cases v) (simp_all add: py_get_def)

lemma update_status_listing:
  assumes "truthy (py_or pid (deps_project_id w))"
    and "new_status \<in> set valid_statuses"
    and "mcp (store w) (ListTasks ''project'' (py_or pid (deps_project_id w))) = (r, s1)"
  shows "update_task_status mcp w tt new_status pid =
     except_exception ErrorUpdatingStatus ''Error updating task status: ''
       (on_list_reply mcp (w\<lparr>store := s1\<rparr>) tt new_status r)"
  using assms
  by (simp add: update_task_status_def update_status_body_def Let_def call_def)

lemma on_list_reply_tasks:
  assumes "map_of kvs ''success'' = Some ok" and "truthy ok"
    and "map_of kvs ''tasks'' = Some (JArr ts)"
    and "list_all titled ts"
  shows "on_list_reply mcp w1 tt new_status (Loaded (JObj kvs)) =
     (case filter (\<lambda>t. ci_substring tt (title_of t)) ts of
        [] \<Rightarrow> (Inr (NoTaskFound tt), w1)
      | task # _ \<Rightarrow> update_found mcp w1 task new_status)"
  using assms
  by (simp add: on_list_reply_def py_get_obj matching_tasks_def matching_in_titled)

lemma update_found_titled:
  assumes "titled task"
    and "mcp (store w1) (UpdateTask (entry ''id'' task) [(''status'', JStr new_status)]) = (r2, s2)"
  shows "update_found mcp w1 task new_status = on_update_reply (w1\<lparr>store := s2\<rparr>) task new_status r2"
  using assms
  by (auto simp: update_found_def titled_def entry_def py_get_obj call_def split: json.splits)

section \<open>The operations, stage by stage\<close>

lemma except_exception_simps:
  "except_exception mk h (Inr m, w) = (m, w)"
  "except_exception mk h (Inl e, w) = (mk (exn_str e), log_error (h @ exn_str e) w)"
  by (simp_all add: except_exception_def)

lemma fault_Loaded_iff:
  "fault (Loaded v) = Some e \<longleftrightarrow> (\<forall>kvs. v \<noteq> JObj kvs) \<and> e = AttributeError (type_name v) ''get''"
  by (cases v) auto

lemma not_confirmed_obj:
  "\<not> confirmed (Loaded (JObj kvs)) \<Longrightarrow>
   \<not> truthy (case map_of kvs ''success'' of Some x \<Rightarrow> x | None \<Rightarrow> JBool False)"
  by (simp split: option.splits)


lemma create_project_reply:
  assumes "notify cb ''project_creation'' = None"
    and "mcp (store w) (CreateProject ttl descr repo) = (r, s1)"
  shows "create_project_with_tasks mcp cb w ttl descr repo =
     except_exception ErrorCreatingProject ''Error creating project with tasks: ''
       (on_project_reply mcp cb (w\<lparr>store := s1\<rparr>) ttl descr r)"
  using assms
  by (simp add: create_project_with_tasks_def create_project_body_def call_def)

lemma on_project_reply_fault:
  "fault r = Some e \<Longrightarrow> on_project_reply mcp cb w1 ttl descr r = (Inl e, w1)"
  by (cases r rule: fault.cases) (simp_all add: on_project_reply_def py_get_def)

lemma on_project_reply_refused:
  "\<not> confirmed (Loaded (JObj kvs)) \<Longrightarrow>
   on_project_reply mcp cb w1 ttl descr (Loaded (JObj kvs)) =
     (Inr (FailedToCreateProject
        (case map_of kvs ''error'' of Some x \<Rightarrow> x | None \<Rightarrow> JStr ''Unknown error'')), w1)"
  by (simp add: on_project_reply_def py_get_obj not_confirmed_obj)

lemma on_update_reply_fault:
  "fault r = Some e \<Longrightarrow> on_update_reply w2 task ns r = (Inl e, w2)"
  by (cases r rule: fault.cases) (simp_all add: on_update_reply_def py_get_def)

lemma on_update_reply_refused:
  "\<not> confirmed (Loaded (JObj kvs)) \<Longrightarrow>
   on_update_reply w2 task ns (Loaded (JObj kvs)) =
     (Inr (FailedToUpdateStatus
        (case map_of kvs ''error'' of Some x \<Rightarrow> x | None \<Rightarrow> JStr ''Unknown error'')), w2)"
  by (simp add: on_update_reply_def py_get_obj not_confirmed_obj)


lemma on_list_reply_fault:
  "fault r = Some e \<Longrightarrow> on_list_reply mcp w1 tt ns r = (Inl e, w1)"
  by (cases r rule: fault.cases) (simp_all add: on_list_reply_def py_get_def)

lemma on_list_reply_refused:
  "\<not> confirmed (Loaded (JObj kvs)) \<Longrightarrow>
   on_list_reply mcp w1 tt ns (Loaded (JObj kvs)) = (Inr ErrorRetrievingTasksToFind, w1)"
  by (simp add: on_list_reply_def py_get_obj not_confirmed_obj)

lemma update_status_first_match:
  assumes "truthy (py_or pid (deps_project_id w))"
    and "new_status \<in> set valid_statuses"
    and "mcp (store w) (ListTasks ''project'' (py_or pid (deps_project_id w))) =
           (Loaded (JObj kvs), s1)"
    and "map_of kvs ''success'' = Some ok" and "truthy ok"
    and "map_of kvs ''tasks'' = Some (JArr ts)"
    and "list_all titled ts"
    and "filter (\<lambda>t. ci_substring tt (title_of t)) ts = first # rest"
    and "mcp s1 (UpdateTask (entry ''id'' first) [(''status'', JStr new_status)]) = (r2, s2)"
  shows "update_task_status mcp w tt new_status pid =
     except_exception ErrorUpdatingStatus ''Error updating task status: ''
       (on_update_reply (w\<lparr>store := s2\<rparr>) first new_status r2)"
    and "titled first"
proof -
  have "first \<in> set (filter (\<lambda>t. ci_substring tt (title_of t)) ts)"
    by (simp add: assms(8))
  then show t: "titled first"
    using assms(7) by (simp add: list_all_iff)
  show "update_task_status mcp w tt new_status pid =
     except_exception ErrorUpdatingStatus ''Error updating task status: ''
       (on_update_reply (w\<lparr>store := s2\<rparr>) first new_status r2)"
    using assms(9) t
    by (simp add: update_status_listing [where mcp = mcp and w = w and pid = pid, OF assms(1-3)]
        on_list_reply_tasks [OF assms(4-7)]
        assms(8) update_found_titled [where ?s2.0 = s2])
qed

section \<open>Batches of task creations\<close>

text \<open>
  Claim C3, as amended. In project decomposition every specification of the list is
  submitted, in order, whatever the earlier replies were; a creation whose call or
  parsing raises, or whose reply is not an object, is skipped with one line in the error
  log, a reply with a false \<open>success\<close> is skipped without a log line, and the number
  returned is the number of replies that are objects with a true \<open>success\<close>. In task
  breakdown with a project, when no creation raises, every subtask is submitted and the
  number reported is again the number of replies with a true \<open>success\<close>.
\<close>

theorem batch_creation_counts_confirmed:
  "generate_project_tasks mcp w pid ttl descr =
     (length (filter confirmed
        (replies mcp (store w) (map (create_task_request pid) (project_task_specs ttl descr)))),
      w\<lparr>store := after_all mcp (store w)
                 (map (create_task_request pid) (project_task_specs ttl descr)),
        logged := logged w @
          error_lines (project_task_specs ttl descr)
            (replies mcp (store w) (map (create_task_request pid) (project_task_specs ttl descr)))\<rparr>)
   \<and> length (replies mcp (store w) (map (create_task_request pid) (project_task_specs ttl descr))) =
       length (project_task_specs ttl descr)
   \<and> (truthy (py_or pid' (deps_project_id w)) \<and>
      list_all (\<lambda>r. fault r = None)
        (replies mcp (store w)
          (map (create_task_request (py_or pid' (deps_project_id w)))
            (analyze_and_break_down_task t d)))
      \<longrightarrow> break_down_task mcp w t d pid' =
           (BrokeDown t (length (filter confirmed
              (replies mcp (store w)
                (map (create_task_request (py_or pid' (deps_project_id w)))
                  (analyze_and_break_down_task t d))))),
            w\<lparr>store := after_all mcp (store w)
               (map (create_task_request (py_or pid' (deps_project_id w)))
                  (analyze_and_break_down_task t d))\<rparr>))"
  by (simp add: generate_project_tasks_def create_tasks_isolated_eq length_replies
      break_down_task_def break_down_body_def Let_def create_tasks_plain_eq
      except_exception_simps)

lemma picky_breakdown_replies:
  "list_all (\<lambda>r. fault r = None)
     (replies (scripted picky) (store fresh)
        (map (create_task_request (py_or (JStr ''p1'') (deps_project_id fresh)))
           (analyze_and_break_down_task ''Fix bug'' '''')))"
  "length (filter confirmed
     (replies (scripted picky) (store fresh)
        (map (create_task_request (py_or (JStr ''p1'') (deps_project_id fresh)))
           (analyze_and_break_down_task ''Fix bug'' '''')))) = 2"
  "truthy (py_or (JStr ''p1'') (deps_project_id fresh))"
  by code_simp+

theorem batch_creation_counts_confirmed_witness:
  "truthy (py_or (JStr ''p1'') (deps_project_id fresh))
   \<and> length (analyze_and_break_down_task ''Fix bug'' '''') = 3
   \<and> fst (break_down_task (scripted picky) fresh ''Fix bug'' '''' (JStr ''p1'')) =
       BrokeDown ''Fix bug'' 2"
proof -
  have "length (analyze_and_break_down_task ''Fix bug'' '''') = 3"
    by code_simp
  moreover have "fst (break_down_task (scripted picky) fresh ''Fix bug'' '''' (JStr ''p1'')) =
       BrokeDown ''Fix bug'' 2"
    using batch_creation_counts_confirmed
      [of "scripted picky" fresh _ _ _ "JStr ''p1''" "''Fix bug''" "''''"]
      picky_breakdown_replies
    by simp
  ultimately show ?thesis
    using picky_breakdown_replies(3) by simp
qed

text \<open>
  The claim as first stated fails twice. In task breakdown a creation that raises ends
  the batch: with a store that raises on the first of the three subtasks of "Fix bug",
  the operation returns "Error breaking down task: connection reset" after a single
  request, with no count. In project decomposition a reply with a false \<open>success\<close>
  leaves no line in the log.
\<close>

theorem batch_failure_counterexample:
  "fst (break_down_task (scripted flaky) fresh ''Fix bug'' '''' (JStr ''p1'')) =
     ErrorBreakingDown ''connection reset''
   \<and> length (store (snd (break_down_task (scripted flaky) fresh ''Fix bug'' '''' (JStr ''p1'')))) = 1
   \<and> length (analyze_and_break_down_task ''Fix bug'' '''') = 3
   \<and> fst (generate_project_tasks (scripted (refusing ''quota exceeded'')) fresh (JStr ''p1'')
        ''Custom Project'' '''') = 0
   \<and> logged (snd (generate_project_tasks (scripted (refusing ''quota exceeded'')) fresh (JStr ''p1'')
        ''Custom Project'' '''')) = []"
  by code_simp

section \<open>Updating a task's status\<close>


lemma board_facts:
  "truthy (py_or (JStr ''p1'') (deps_project_id fresh))"
  "''doing'' \<in> set valid_statuses"
  "list_all titled board_tasks"
  "filter (\<lambda>t. ci_substring ''deploy'' (title_of t)) board_tasks = []"
  "filter (\<lambda>t. ci_substring ''DESIGN'' (title_of t)) board_tasks =
     [JObj [(''id'', JStr ''1''), (''title'', JStr ''Design API''), (''status'', JStr ''todo'')],
      JObj [(''id'', JStr ''3''), (''title'', JStr ''Design database''), (''status'', JStr ''todo'')]]"
  by code_simp+

lemma board_listing:
  "scripted (board r) (store fresh) (ListTasks ''project'' (py_or (JStr ''p1'') (deps_project_id fresh))) =
     (Loaded (JObj [(''success'', JBool True), (''tasks'', JArr board_tasks)]),
      [ListTasks ''project'' (JStr ''p1'')])"
  by (simp add: scripted_def board_def fresh_def py_or_def)


section \<open>Failure replies\<close>

text \<open>
  Claim C9, as amended. For the reply to the project creation in
  \<open>create_project_with_tasks\<close>, and for the replies to the listing and to the update in
  \<open>update_task_status\<close>: a reply that parses to a value that is not an object makes the
  operation return its general error string ("Error creating project: ..." or "Error
  updating task status: ...") with the text of the attribute error, through the handler
  that catches every exception, and log one line; nothing is raised. An object with a
  false \<open>success\<close> and an \<open>error\<close> entry makes the operation return "Failed to create
  project: {error}" for the project creation and "Failed to update task status:
  {error}" for the update, with exactly that entry. For the listing inside
  \<open>update_task_status\<close> a false \<open>success\<close> gives the fixed string "Error retrieving
  tasks to find the specified task.", whatever the \<open>error\<close> entry is.
\<close>

theorem remote_failure_messages:
  "(notify cb ''project_creation'' = None \<and>
    mcp (store w) (CreateProject ttl descr repo) = (Loaded v, s1) \<longrightarrow>
      ((\<forall>kvs. v \<noteq> JObj kvs) \<longrightarrow>
         create_project_with_tasks mcp cb w ttl descr repo =
           (ErrorCreatingProject (exn_str (AttributeError (type_name v) ''get'')),
            log_error (''Error creating project with tasks: '' @
                exn_str (AttributeError (type_name v) ''get'')) (w\<lparr>store := s1\<rparr>)))
      \<and> (\<forall>kvs err. v = JObj kvs \<and> \<not> confirmed (Loaded v) \<and> map_of kvs ''error'' = Some err \<longrightarrow>
         create_project_with_tasks mcp cb w ttl descr repo =
           (FailedToCreateProject err, w\<lparr>store := s1\<rparr>)))
   \<and> (truthy (py_or pid (deps_project_id w)) \<and> new_status \<in> set valid_statuses \<and>
      mcp (store w) (ListTasks ''project'' (py_or pid (deps_project_id w))) = (Loaded lv, s1) \<longrightarrow>
      ((\<forall>kvs. lv \<noteq> JObj kvs) \<longrightarrow>
         update_task_status mcp w tt new_status pid =
           (ErrorUpdatingStatus (exn_str (AttributeError (type_name lv) ''get'')),
            log_error (''Error updating task status: '' @
                exn_str (AttributeError (type_name lv) ''get'')) (w\<lparr>store := s1\<rparr>)))
      \<and> (\<forall>kvs. lv = JObj kvs \<and> \<not> confirmed (Loaded lv) \<longrightarrow>
         update_task_status mcp w tt new_status pid =
           (ErrorRetrievingTasksToFind, w\<lparr>store := s1\<rparr>))
      \<and> (\<forall>kvs ok ts first rest uv s2.
           lv = JObj kvs \<and> map_of kvs ''success'' = Some ok \<and> truthy ok \<and>
           map_of kvs ''tasks'' = Some (JArr ts) \<and> list_all titled ts \<and>
           filter (\<lambda>t. ci_substring tt (title_of t)) ts = first # rest \<and>
           mcp s1 (UpdateTask (entry ''id'' first) [(''status'', JStr new_status)]) = (Loaded uv, s2) \<longrightarrow>
           ((\<forall>ukvs. uv \<noteq> JObj ukvs) \<longrightarrow>
              update_task_status mcp w tt new_status pid =
                (ErrorUpdatingStatus (exn_str (AttributeError (type_name uv) ''get'')),
                 log_error (''Error updating task status: '' @
                     exn_str (AttributeError (type_name uv) ''get'')) (w\<lparr>store := s2\<rparr>)))
           \<and> (\<forall>ukvs err. uv = JObj ukvs \<and> \<not> confirmed (Loaded uv) \<and>
                 map_of ukvs ''error'' = Some err \<longrightarrow>
              update_task_status mcp w tt new_status pid =
                (FailedToUpdateStatus err, w\<lparr>store := s2\<rparr>))))"
proof (intro conjI impI allI; (elim conjE)?)
  assume a: "notify cb ''project_creation'' = None"
    "mcp (store w) (CreateProject ttl descr repo) = (Loaded v, s1)"
  note creation = create_project_reply [where mcp = mcp and w = w, OF a]
  {
    assume "\<forall>kvs. v \<noteq> JObj kvs"
    then have "fault (Loaded v) = Some (AttributeError (type_name v) ''get'')"
      by (simp add: fault_Loaded_iff)
    then show "create_project_with_tasks mcp cb w ttl descr repo =
           (ErrorCreatingProject (exn_str (AttributeError (type_name v) ''get'')),
            log_error (''Error creating project with tasks: '' @
                exn_str (AttributeError (type_name v) ''get'')) (w\<lparr>store := s1\<rparr>))"
      by (simp only: creation on_project_reply_fault except_exception_simps)
  }
  {
    fix kvs err
    assume "v = JObj kvs" "\<not> confirmed (Loaded v)" "map_of kvs ''error'' = Some err"
    then show "create_project_with_tasks mcp cb w ttl descr repo =
           (FailedToCreateProject err, w\<lparr>store := s1\<rparr>)"
      by (simp add: creation on_project_reply_refused except_exception_simps)
  }
next
  assume a: "truthy (py_or pid (deps_project_id w))" "new_status \<in> set valid_statuses"
    "mcp (store w) (ListTasks ''project'' (py_or pid (deps_project_id w))) = (Loaded lv, s1)"
  note listing = update_status_listing [where mcp = mcp and w = w and pid = pid, OF a]
  {
    assume "\<forall>kvs. lv \<noteq> JObj kvs"
    then have "fault (Loaded lv) = Some (AttributeError (type_name lv) ''get'')"
      by (simp add: fault_Loaded_iff)
    then show "update_task_status mcp w tt new_status pid =
           (ErrorUpdatingStatus (exn_str (AttributeError (type_name lv) ''get'')),
            log_error (''Error updating task status: '' @
                exn_str (AttributeError (type_name lv) ''get'')) (w\<lparr>store := s1\<rparr>))"
      by (simp only: listing on_list_reply_fault except_exception_simps)
  }
  {
    fix kvs
    assume "lv = JObj kvs" "\<not> confirmed (Loaded lv)"
    then show "update_task_status mcp w tt new_status pid =
           (ErrorRetrievingTasksToFind, w\<lparr>store := s1\<rparr>)"
      by (simp add: listing on_list_reply_refused except_exception_simps)
  }
  {
    fix kvs ok ts first rest uv s2
    assume b: "lv = JObj kvs" "map_of kvs ''success'' = Some ok" "truthy ok"
      "map_of kvs ''tasks'' = Some (JArr ts)" "list_all titled ts"
      "filter (\<lambda>t. ci_substring tt (title_of t)) ts = first # rest"
      "mcp s1 (UpdateTask (entry ''id'' first) [(''status'', JStr new_status)]) = (Loaded uv, s2)"
    note eq = update_status_first_match(1)
      [where mcp = mcp and w = w and pid = pid, OF a(1) a(2) a(3) [unfolded b(1)] b(2-7)]
    {
      assume "\<forall>ukvs. uv \<noteq> JObj ukvs"
      then have "fault (Loaded uv) = Some (AttributeError (type_name uv) ''get'')"
        by (simp add: fault_Loaded_iff)
      then show "update_task_status mcp w tt new_status pid =
                (ErrorUpdatingStatus (exn_str (AttributeError (type_name uv) ''get'')),
                 log_error (''Error updating task status: '' @
                     exn_str (AttributeError (type_name uv) ''get'')) (w\<lparr>store := s2\<rparr>))"
        by (simp only: eq on_update_reply_fault except_exception_simps)
    }
    {
      fix ukvs err
      assume "uv = JObj ukvs" "\<not> confirmed (Loaded uv)" "map_of ukvs ''error'' = Some err"
      then show "update_task_status mcp w tt new_status pid =
                (FailedToUpdateStatus err, w\<lparr>store := s2\<rparr>)"
        by (simp add: eq on_update_reply_refused except_exception_simps)
    }
  }
qed

text \<open>
  The claim as first stated fails on the listing of \<open>update_task_status\<close>: two stores
  that refuse with different \<open>error\<close> entries give the same message, which carries
  neither. It also fails on the replies to the task creations of
  \<open>create_project_with_tasks\<close>: when each of them is an empty array, the operation
  returns the success message with a count of 0, not a failure.
\<close>

theorem remote_failure_messages_counterexample:
  "fst (update_task_status (scripted (refusing ''quota exceeded'')) fresh ''design'' ''done''
          (JStr ''p1'')) = ErrorRetrievingTasksToFind
   \<and> fst (update_task_status (scripted (refusing ''database offline'')) fresh ''design'' ''done''
          (JStr ''p1'')) = ErrorRetrievingTasksToFind
   \<and> fst (create_project_with_tasks (scripted garbled_tasks) None fresh ''Custom Project'' ''''
          JNull) = ProjectCreated ''Custom Project'' 0 (JStr ''p1'')"
  by code_simp

lemma refused_creation:
  "notify None ''project_creation'' = None"
  "scripted (refusing ''name already taken'') (store fresh)
     (CreateProject ''Shop'' ''An online shop'' JNull) =
     (Loaded (JObj [(''success'', JBool False), (''error'', JStr ''name already taken'')]),
      [CreateProject ''Shop'' ''An online shop'' JNull])"
  "\<not> confirmed (Loaded (JObj [(''success'', JBool False), (''error'', JStr ''name already taken'')]))"
  "map_of [(''success'', JBool False), (''error'', JStr ''name already taken'')] ''error'' =
     Some (JStr ''name already taken'')"
  by (simp_all add: notify_def scripted_def refusing_def fresh_def)

lemma locked_update:
  "scripted (board (refusing ''task is locked'' (ListTasks [] JNull)))
     [ListTasks ''project'' (JStr ''p1'')]
     (UpdateTask (entry ''id'' (JObj [(''id'', JStr ''1''), (''title'', JStr ''Design API''),
            (''status'', JStr ''todo'')])) [(''status'', JStr ''doing'')]) =
     (Loaded (JObj [(''success'', JBool False), (''error'', JStr ''task is locked'')]),
      [ListTasks ''project'' (JStr ''p1''),
       UpdateTask (JStr ''1'') [(''status'', JStr ''doing'')]])"
  "\<not> confirmed (Loaded (JObj [(''success'', JBool False), (''error'', JStr ''task is locked'')]))"
  "map_of [(''success'', JBool False), (''error'', JStr ''task is locked'')] ''error'' =
     Some (JStr ''task is locked'')"
  by (simp_all add: scripted_def board_def refusing_def entry_def)

theorem remote_failure_messages_witness:
  "create_project_with_tasks (scripted (refusing ''name already taken'')) None fresh
      ''Shop'' ''An online shop'' JNull =
     (FailedToCreateProject (JStr ''name already taken''),
      fresh\<lparr>store := [CreateProject ''Shop'' ''An online shop'' JNull]\<rparr>)
   \<and> update_task_status (scripted (board (refusing ''task is locked'' (ListTasks [] JNull)))) fresh
      ''DESIGN'' ''doing'' (JStr ''p1'') =
     (FailedToUpdateStatus (JStr ''task is locked''),
      fresh\<lparr>store := [ListTasks ''project'' (JStr ''p1''),
                       UpdateTask (JStr ''1'') [(''status'', JStr ''doing'')]]\<rparr>)"
proof -
  have s: "map_of [(''success'', JBool True), (''tasks'', JArr board_tasks)] ''success'' =
      Some (JBool True)" "truthy (JBool True)"
    "map_of [(''success'', JBool True), (''tasks'', JArr board_tasks)] ''tasks'' =
      Some (JArr board_tasks)"
    by simp_all
  note project_part =
    remote_failure_messages [THEN conjunct1, THEN mp, THEN conjunct2, rule_format]
  note update_part =
    remote_failure_messages [THEN conjunct2, THEN mp, THEN conjunct2, THEN conjunct2,
      rule_format, THEN conjunct2, rule_format]
  have "create_project_with_tasks (scripted (refusing ''name already taken'')) None fresh
      ''Shop'' ''An online shop'' JNull =
     (FailedToCreateProject (JStr ''name already taken''),
      fresh\<lparr>store := [CreateProject ''Shop'' ''An online shop'' JNull]\<rparr>)"
    by (rule project_part
        [where kvs = "[(''success'', JBool False), (''error'', JStr ''name already taken'')]"
          and v = "JObj [(''success'', JBool False), (''error'', JStr ''name already taken'')]"])
      (simp_all add: refused_creation del: confirmed.simps)
  moreover have "update_task_status (scripted (board (refusing ''task is locked'' (ListTasks [] JNull))))
      fresh ''DESIGN'' ''doing'' (JStr ''p1'') =
     (FailedToUpdateStatus (JStr ''task is locked''),
      fresh\<lparr>store := [ListTasks ''project'' (JStr ''p1''),
                       UpdateTask (JStr ''1'') [(''status'', JStr ''doing'')]]\<rparr>)"
    by (rule update_part
        [where kvs = "[(''success'', JBool True), (''tasks'', JArr board_tasks)]"
          and ukvs = "[(''success'', JBool False), (''error'', JStr ''task is locked'')]"
          and ts = board_tasks and ok = "JBool True"
          and lv = "JObj [(''success'', JBool True), (''tasks'', JArr board_tasks)]"
          and uv = "JObj [(''success'', JBool False), (''error'', JStr ''task is locked'')]"
          and first = "JObj [(''id'', JStr ''1''), (''title'', JStr ''Design API''),
            (''status'', JStr ''todo'')]"
          and rest = "[JObj [(''id'', JStr ''3''), (''title'', JStr ''Design database''),
            (''status'', JStr ''todo'')]]"
          and ?s1.0 = "[ListTasks ''project'' (JStr ''p1'')]"])
      (simp_all add: board_facts board_listing locked_update del: confirmed.simps)
  ultimately show ?thesis
    by (rule conjI)
qed


section \<open>Calls of the agents service\<close>

lemma handled_received:
  "handled (received (RaisedHTTPError m)) =
     JObj [(''success'', JBool False), (''error'', JStr (''HTTP error: '' @ m)), (''result'', JNull)]"
  "handled (received (RaisedOther m)) =
     JObj [(''success'', JBool False), (''error'', JStr (''Unexpected error: '' @ m)),
           (''result'', JNull)]"
  "handled (received (Body (JObj kvs))) = JObj kvs"
  "(\<forall>kvs. v \<noteq> JObj kvs) \<Longrightarrow>
   handled (received (Body v)) =
     JObj [(''success'', JBool False),
           (''error'', JStr (''Unexpected error: '' @ sq (type_name v) @
              '' object has no attribute '' @ sq ''get'')),
           (''result'', JNull)]"
  by (cases v; simp add: handled_def received_def py_get_def)+

lemma health_check_answers:
  "snd (health_check net url n) = snd (net n (Get (url @ ''/health'')))"
  "fst (net n (Get (url @ ''/health''))) = RaisedHTTPError m \<Longrightarrow>
   fst (health_check net url n) = JObj [(''status'', JStr ''unhealthy''), (''error'', JStr m)]"
  "fst (net n (Get (url @ ''/health''))) = RaisedOther m \<Longrightarrow>
   fst (health_check net url n) = JObj [(''status'', JStr ''unhealthy''), (''error'', JStr m)]"
  by (cases "net n (Get (url @ ''/health''))"; simp add: health_check_def)+



section \<open>Rounding and counting\<close>

lemma pow2_pos: "0 < pow2 e"
  by (simp add: pow2_def)

lemma rne_nonneg: "0 \<le> q \<Longrightarrow> 0 \<le> rne q"
  by (auto simp: rne_def Let_def)

lemma fl_nonneg: "0 \<le> x \<Longrightarrow> 0 \<le> fl x"
proof (cases "x = 0")
  case True
  then show ?thesis by (simp add: fl_def)
next
  case False
  assume "0 \<le> x"
  with False have pos: "0 < x" by simp
  have "0 \<le> rne (x / pow2 (bexp x - 52))"
    using pos pow2_pos [of "bexp x - 52"] by (intro rne_nonneg) simp
  then show ?thesis
    using pos pow2_pos [of "bexp x - 52"] by (simp add: fl_def Let_def)
qed


lemma count_of_update:
  "count_of (AList.update (key_of k) n c) (JStr s) = (if k = JStr s then n else count_of c (JStr s))"
  by (cases k) (auto simp: count_of_def key_of_def update_conv)

lemma py_get_countable:
  "countable_task t \<Longrightarrow> py_get t ''status'' (JStr ''todo'') = Inr (status_of t)"
  "countable_task t \<Longrightarrow> py_get t ''assignee'' (JStr ''User'') = Inr (assignee_of t)"
  by (cases t; simp add: countable_task_def py_get_def status_of_def assignee_of_def)+

lemma tally_countable:
  "list_all countable_task tasks \<Longrightarrow>
   \<exists>sc' ac'. tally tasks sc ac = Inr (sc', ac') \<and>
     (\<forall>s. count_of sc' (JStr s) = count_of sc (JStr s) + with_status s tasks)"
proof (induction tasks arbitrary: sc ac)
  case Nil
  show ?case by (simp add: with_status_def)
next
  case (Cons t tasks)
  then have t: "countable_task t" and rest: "list_all countable_task tasks"
    by simp_all
  from t have h: "hashable (status_of t)" "hashable (assignee_of t)"
    by (cases t; simp add: countable_task_def)+
  let ?sc = "AList.update (key_of (status_of t)) (count_of sc (status_of t) + 1) sc"
  let ?ac = "AList.update (key_of (assignee_of t)) (count_of ac (assignee_of t) + 1) ac"
  from Cons.IH [OF rest, of ?sc ?ac] obtain sc' ac' where
    r: "tally tasks ?sc ?ac = Inr (sc', ac')"
    and c: "\<forall>s. count_of sc' (JStr s) = count_of ?sc (JStr s) + with_status s tasks"
    by blast
  have "tally (t # tasks) sc ac = Inr (sc', ac')"
    using r by (simp add: py_get_countable [OF t] bump_def h)
  moreover have "\<forall>s. count_of sc' (JStr s) = count_of sc (JStr s) + with_status s (t # tasks)"
    using c by (auto simp: count_of_update with_status_def)
  ultimately show ?case by blast
qed

lemma initial_counts: "count_of initial_status_counts (JStr s) = 0"
  by (simp add: initial_status_counts_def count_of_def key_of_def)

lemma health_rates_countable:
  assumes "list_all countable_task tasks"
  shows "\<exists>sc. health_rates tasks =
      Inr (sc, fdiv (with_status ''done'' tasks) (length tasks),
           fdiv (with_status ''doing'' tasks + with_status ''review'' tasks) (length tasks)) \<and>
      (\<forall>s. count_of sc (JStr s) = with_status s tasks)"
proof -
  from tally_countable [OF assms, of initial_status_counts initial_assignee_counts]
  obtain sc ac where "tally tasks initial_status_counts initial_assignee_counts = Inr (sc, ac)"
    and "\<forall>s. count_of sc (JStr s) = with_status s tasks"
    by (auto simp: initial_counts)
  then show ?thesis
    by (simp add: health_rates_def Let_def)
qed

lemma weighted_progress_nonneg:
  "0 \<le> c \<Longrightarrow> 0 \<le> r \<Longrightarrow> 0 \<le> weighted_progress c r"
  by (simp add: weighted_progress_def fadd_def fmul_def fl_nonneg)

lemma fdiv_nonneg: "0 \<le> fdiv a b"
  by (simp add: fdiv_def fl_nonneg)

lemma score_of_range:
  "0 \<le> c \<Longrightarrow> 0 \<le> r \<Longrightarrow> 0 \<le> score_of c r \<and> score_of c r \<le> 10"
  using fl_nonneg [of "weighted_progress c r * 10"] weighted_progress_nonneg [of c r]
  by (simp add: score_of_def py_int_def fmul_def)

lemma analyze_countable:
  assumes "tasks \<noteq> []" and "list_all countable_task tasks"
  shows "analyze_project_health tasks =
     Inr \<lparr>health_score =
            score_of (fdiv (with_status ''done'' tasks) (length tasks))
              (fdiv (with_status ''doing'' tasks + with_status ''review'' tasks) (length tasks)),
          completed = with_status ''done'' tasks,
          in_progress = with_status ''doing'' tasks,
          todo = with_status ''todo'' tasks,
          review = with_status ''review'' tasks\<rparr>"
  using health_rates_countable [OF assms(2)] assms(1)
  by (auto simp: analyze_project_health_def)


lemma score_of_unfolded:
  "0 \<le> c \<Longrightarrow> 0 \<le> r \<Longrightarrow>
   score_of c r = min 10 \<lfloor>fl (fl (fl (c * 6) + fl (r * 4)) * 10)\<rfloor>"
  using fl_nonneg [of "weighted_progress c r * 10"] weighted_progress_nonneg [of c r]
  by (simp add: score_of_def py_int_def fmul_def weighted_progress_def fadd_def)

lemma task_in_facts:
  "status_of (task_in s) = JStr s" "countable_task (task_in s)"
  by (simp_all add: task_in_def status_of_def assignee_of_def countable_task_def hashable_def)

lemma with_status_simps:
  "with_status s [] = 0"
  "with_status s (task_in s' # ts) = (if s' = s then 1 else 0) + with_status s ts"
  "with_status s (xs @ ys) = with_status s xs + with_status s ys"
  "with_status s (replicate n (task_in s')) = (if s' = s then n else 0)"
  by (simp_all add: with_status_def task_in_facts)

lemma score_values:
  "score_of (fdiv 1 4) (fdiv (1 + 0) 4) = 10"
  "score_of (fdiv 6 40) (fdiv (1 + 0) 40) = 9"
  "score_of (fdiv 1 10) (fdiv (0 + 0) 10) = 6"
  "weighted_progress (fdiv 1 4) (fdiv (1 + 0) 4) = 5 / 2"
  "weighted_progress (fdiv 1 1) (fdiv (0 + 0) 1) = 6"
  by code_simp+


section \<open>The health score\<close>

lemma spec_mix:
  "[task_in ''done'', task_in ''doing'', task_in ''todo'', task_in ''todo''] \<noteq> []"
  "list_all countable_task [task_in ''done'', task_in ''doing'', task_in ''todo'', task_in ''todo'']"
  "with_status ''done'' [task_in ''done'', task_in ''doing'', task_in ''todo'', task_in ''todo''] = 1"
  "with_status ''doing'' [task_in ''done'', task_in ''doing'', task_in ''todo'', task_in ''todo''] = 1"
  "with_status ''review'' [task_in ''done'', task_in ''doing'', task_in ''todo'', task_in ''todo''] = 0"
  "with_status ''todo'' [task_in ''done'', task_in ''doing'', task_in ''todo'', task_in ''todo''] = 2"
  "length [task_in ''done'', task_in ''doing'', task_in ''todo'', task_in ''todo''] = 4"
  by (simp_all add: task_in_facts with_status_simps)

lemma forty_tasks:
  "replicate 6 (task_in ''done'') @ [task_in ''doing''] @ replicate 33 (task_in ''todo'') \<noteq> []"
  "list_all countable_task
     (replicate 6 (task_in ''done'') @ [task_in ''doing''] @ replicate 33 (task_in ''todo''))"
  "with_status ''done''
     (replicate 6 (task_in ''done'') @ [task_in ''doing''] @ replicate 33 (task_in ''todo'')) = 6"
  "with_status ''doing''
     (replicate 6 (task_in ''done'') @ [task_in ''doing''] @ replicate 33 (task_in ''todo'')) = 1"
  "with_status ''review''
     (replicate 6 (task_in ''done'') @ [task_in ''doing''] @ replicate 33 (task_in ''todo'')) = 0"
  "with_status ''todo''
     (replicate 6 (task_in ''done'') @ [task_in ''doing''] @ replicate 33 (task_in ''todo'')) = 33"
  "length
     (replicate 6 (task_in ''done'') @ [task_in ''doing''] @ replicate 33 (task_in ''todo'')) = 40"
  by (simp_all add: task_in_facts with_status_simps list_all_iff)


lemma health_example:
  "analyze_project_health
     [task_in ''done'', task_in ''doing'', task_in ''todo'', task_in ''todo''] =
     Inr \<lparr>health_score = 10, completed = 1, in_progress = 1, todo = 2, review = 0\<rparr>"
  unfolding analyze_countable [OF spec_mix(1,2)] spec_mix(3-7) score_values
  by (rule refl)

text \<open>
  Claim C4, as amended. For every list of tasks that is not empty (the tasks being
  objects with hashable status and assignee, so that the counting does not raise), the
  health score is \<open>min(10, floor(((done/total)*6 + ((doing+review)/total)*4) * 10))\<close> with
  every division, multiplication and addition rounded to a double, as Python computes
  it; it is an integer between 0 and 10; and for four tasks with the statuses done,
  doing, todo, todo it is exactly 10.
\<close>

theorem health_score_formula:
  assumes "tasks \<noteq> []" and "list_all countable_task tasks"
  shows "analyze_project_health tasks =
     Inr \<lparr>health_score =
            min 10 \<lfloor>fl (fl (fl (fl (of_nat (with_status ''done'' tasks) / of_nat (length tasks)) * 6)
                            + fl (fl (of_nat (with_status ''doing'' tasks +
                                              with_status ''review'' tasks) /
                                      of_nat (length tasks)) * 4)) * 10)\<rfloor>,
          completed = with_status ''done'' tasks,
          in_progress = with_status ''doing'' tasks,
          todo = with_status ''todo'' tasks,
          review = with_status ''review'' tasks\<rparr>
   \<and> 0 \<le> min 10 \<lfloor>fl (fl (fl (fl (of_nat (with_status ''done'' tasks) / of_nat (length tasks)) * 6)
                            + fl (fl (of_nat (with_status ''doing'' tasks +
                                              with_status ''review'' tasks) /
                                      of_nat (length tasks)) * 4)) * 10)\<rfloor>
   \<and> min 10 \<lfloor>fl (fl (fl (fl (of_nat (with_status ''done'' tasks) / of_nat (length tasks)) * 6)
                            + fl (fl (of_nat (with_status ''doing'' tasks +
                                              with_status ''review'' tasks) /
                                      of_nat (length tasks)) * 4)) * 10)\<rfloor> \<le> (10::int)
   \<and> analyze_project_health
       [task_in ''done'', task_in ''doing'', task_in ''todo'', task_in ''todo''] =
       Inr \<lparr>health_score = 10, completed = 1, in_progress = 1, todo = 2, review = 0\<rparr>"
proof -
  let ?c = "fdiv (with_status ''done'' tasks) (length tasks)"
  let ?r = "fdiv (with_status ''doing'' tasks + with_status ''review'' tasks) (length tasks)"
  have nn: "0 \<le> ?c" "0 \<le> ?r"
    by (rule fdiv_nonneg)+
  have eq: "score_of ?c ?r = min 10 \<lfloor>fl (fl (fl (?c * 6) + fl (?r * 4)) * 10)\<rfloor>"
    by (rule score_of_unfolded [OF nn])
  show ?thesis
    using score_of_range [OF nn] health_example
    unfolding analyze_countable [OF assms] eq
    by (simp add: fdiv_def)
qed

lemma one_in_ten:
  "task_in ''done'' # replicate 9 (task_in ''todo'') \<noteq> []"
  "list_all countable_task (task_in ''done'' # replicate 9 (task_in ''todo''))"
  by (simp_all add: task_in_facts list_all_iff)

lemma one_in_ten_counts:
  "with_status ''done'' (task_in ''done'' # replicate 9 (task_in ''todo'')) = 1"
  "with_status ''doing'' (task_in ''done'' # replicate 9 (task_in ''todo'')) = 0"
  "with_status ''review'' (task_in ''done'' # replicate 9 (task_in ''todo'')) = 0"
  "with_status ''todo'' (task_in ''done'' # replicate 9 (task_in ''todo'')) = 9"
  "length (task_in ''done'' # replicate 9 (task_in ''todo'')) = 10"
  by (simp_all add: with_status_simps)

lemma one_in_ten_score:
  "min 10 \<lfloor>fl (fl (fl (fl (of_nat 1 / of_nat 10) * 6) +
                   fl (fl (of_nat (0 + 0) / of_nat 10) * 4)) * 10)\<rfloor> = (6::int)"
  by code_simp

theorem health_score_formula_witness:
  "task_in ''done'' # replicate 9 (task_in ''todo'') \<noteq> []
   \<and> list_all countable_task (task_in ''done'' # replicate 9 (task_in ''todo''))
   \<and> analyze_project_health (task_in ''done'' # replicate 9 (task_in ''todo'')) =
       Inr \<lparr>health_score = 6, completed = 1, in_progress = 0, todo = 9, review = 0\<rparr>"
  using health_score_formula [OF one_in_ten] one_in_ten
  unfolding one_in_ten_counts one_in_ten_score
  by blast

text \<open>
  The claim as first stated, read in exact arithmetic, fails: for 40 tasks of which 6
  are done and 1 is in progress the exact value of the formula is 10, and the code,
  whose rounded term is just below 1, returns 9.
\<close>

theorem health_score_exact_counterexample:
  "analyze_project_health
     (replicate 6 (task_in ''done'') @ [task_in ''doing''] @ replicate 33 (task_in ''todo'')) =
     Inr \<lparr>health_score = 9, completed = 6, in_progress = 1, todo = 33, review = 0\<rparr>
   \<and> min 10 \<lfloor>((6 / 40) * 6 + ((1 + 0) / 40) * 4) * (10::rat)\<rfloor> = (10::int)"
proof -
  have "analyze_project_health
     (replicate 6 (task_in ''done'') @ [task_in ''doing''] @ replicate 33 (task_in ''todo'')) =
     Inr \<lparr>health_score = 9, completed = 6, in_progress = 1, todo = 33, review = 0\<rparr>"
    unfolding analyze_countable [OF forty_tasks(1,2)] forty_tasks(3-7) score_values
    by (rule refl)
  moreover have "min 10 \<lfloor>((6 / 40) * 6 + ((1 + 0) / 40) * 4) * (10::rat)\<rfloor> = (10::int)"
    by simp
  ultimately show ?thesis
    by (rule conjI)
qed





end
